theory Spec2Isabelle
  imports Complex_Main "HOL-Library.Word" "HOL-Library.Sublist" "HOL-Library.List_Lexorder"
    "HOL-Library.Product_Lexorder"
begin

section \<open>JavaScript strings and numbers\<close>

text \<open>
  A JavaScript string is a sequence of UTF-16 code units. Literals of the source that are
  plain ASCII are written with \<open>js\<close>; Korean literals are given by their code units.
\<close>

type_synonym jschar = "16 word"
type_synonym jsstring = "jschar list"

definition js :: "string \<Rightarrow> jsstring" where
  "js s = map of_char s"


text \<open>
  \<^verbatim>\<open>String(n)\<close> of an integral number (template literals \<^verbatim>\<open>`${n}`\<close> use it): decimal
  digits, most significant first, no leading zero, a minus sign for a negative one.
  (Exact for the integers below \<open>10^21\<close>; clock readings and years are far inside.)
\<close>

definition digit_char :: "nat \<Rightarrow> jschar" where
  "digit_char d = of_nat (48 + d)"

function decimal :: "nat \<Rightarrow> jsstring" where
  "decimal n = (if n < 10 then [digit_char n] else decimal (n div 10) @ [digit_char (n mod 10)])"
  by pat_completeness auto
termination
  by (relation "measure (\<lambda>n. n)") auto

declare decimal.simps [simp del]

definition number_toString :: "int \<Rightarrow> jsstring" where
  "number_toString i = (if i < 0 then js ''-'' @ decimal (nat (- i)) else decimal (nat i))"

text \<open>\<^verbatim>\<open>s.split(',')\<close>: the pieces between commas; the empty string gives one empty piece.\<close>

fun split_comma :: "jsstring \<Rightarrow> jsstring list" where
  "split_comma [] = [[]]"
| "split_comma (c # s) =
     (if c = 0x2C then [] # split_comma s
      else (case split_comma s of p # ps \<Rightarrow> (c # p) # ps | [] \<Rightarrow> [[c]]))"

text \<open>\<^verbatim>\<open>s.split(',')[1]\<close>: \<open>None\<close> is \<^verbatim>\<open>undefined\<close> (no comma in \<open>s\<close>).\<close>

definition split_comma_1 :: "jsstring \<Rightarrow> jsstring option" where
  "split_comma_1 s = (case split_comma s of _ # p # _ \<Rightarrow> Some p | _ \<Rightarrow> None)"

section \<open>Data model (types.ts)\<close>

datatype template_type = MEMBERSHIP | WAIVER | PT_AGREEMENT | OTHER

datatype contract_status = COMPLETED | SENT

text \<open>An optional field (\<^verbatim>\<open>basePdfUrl?\<close>) is an \<open>option\<close>: \<open>None\<close> is absent or \<^verbatim>\<open>undefined\<close>.\<close>

record ContractTemplate =
  t_id :: jsstring
  t_name :: jsstring
  t_type :: template_type
  createdAt :: jsstring
  basePdfUrl :: "jsstring option"
  fileSize :: "jsstring option"
  pageCount :: "nat option"

text \<open>\<^verbatim>\<open>Omit<ContractTemplate, 'id' | 'createdAt'>\<close>, the argument of \<open>uploadTemplate\<close>.\<close>

record TemplateDraft =
  d_name :: jsstring
  d_type :: template_type
  d_basePdfUrl :: "jsstring option"
  d_fileSize :: "jsstring option"
  d_pageCount :: "nat option"

record SignerInfo =
  s_name :: jsstring
  phone :: jsstring
  email :: jsstring
  address :: jsstring
  dob :: jsstring

record SignedContract =
  c_id :: jsstring
  templateId :: jsstring
  templateName :: jsstring
  signerName :: jsstring
  signerPhone :: jsstring
  signerEmail :: jsstring
  signedAt :: jsstring
  pdfDataUrl :: jsstring
  status :: contract_status

text \<open>\<^verbatim>\<open>Omit<SignedContract, 'id' | 'status'>\<close>, the argument of \<open>saveSignedContract\<close>.\<close>

record ContractDraft =
  d_templateId :: jsstring
  d_templateName :: jsstring
  d_signerName :: jsstring
  d_signerPhone :: jsstring
  d_signerEmail :: jsstring
  d_signedAt :: jsstring
  d_pdfDataUrl :: jsstring

section \<open>The browser as the service sees it\<close>

text \<open>
  \<open>localStorage\<close> holds two items, under the keys \<^verbatim>\<open>signease_templates\<close> and
  \<^verbatim>\<open>signease_contracts\<close>. Each item is the JSON text of an array of records; the model keeps
  the array itself (\<^verbatim>\<open>JSON.parse(JSON.stringify(v))\<close> gives \<open>v\<close> back for these records: a
  field that is \<^verbatim>\<open>undefined\<close> is left out by \<^verbatim>\<open>stringify\<close> and is absent after
  \<^verbatim>\<open>parse\<close>, both \<open>None\<close> here). \<open>None\<close> is a key that was never written.
\<close>

record storage =
  templates_item :: "ContractTemplate list option"
  contracts_item :: "SignedContract list option"

datatype storage_key = TEMPLATES | CONTRACTS

text \<open>The effects of a call, in the order they happen.\<close>

datatype event =
    Delay nat
  | SetItem storage_key
  | SetItemFailed storage_key
  | Fetch SignedContract
  | Console string

record world =
  store :: storage
  trace :: "event list"

datatype js_error = QuotaExceededError

text \<open>The answer of the remote server to one \<^verbatim>\<open>fetch\<close>.\<close>

datatype fetch_outcome =
    ResponseOk
  | ResponseNotOk "jsstring option"
  | Unreachable

text \<open>
  What the service reads from its environment: whether a storage state fits the quota of
  \<open>localStorage\<close> (\<^verbatim>\<open>setItem\<close> throws when the state it would produce does not), the three
  \<^verbatim>\<open>toISOString()\<close> values computed when the module is loaded, and \<^verbatim>\<open>String.toLowerCase\<close>.
\<close>

record env =
  quota :: "storage \<Rightarrow> bool"
  created1 :: jsstring
  created2 :: jsstring
  created3 :: jsstring
  toLowerCase :: "jsstring \<Rightarrow> jsstring"

definition delay :: "nat \<Rightarrow> world \<Rightarrow> world" where
  "delay ms w = w\<lparr>trace := trace w @ [Delay ms]\<rparr>"

definition console :: "string \<Rightarrow> world \<Rightarrow> world" where
  "console msg w = w\<lparr>trace := trace w @ [Console msg]\<rparr>"

definition setItem_templates ::
  "env \<Rightarrow> ContractTemplate list \<Rightarrow> world \<Rightarrow> (js_error + unit) \<times> world" where
  "setItem_templates e v w =
     (let s = (store w)\<lparr>templates_item := Some v\<rparr> in
      if quota e s then (Inr (), w\<lparr>store := s, trace := trace w @ [SetItem TEMPLATES]\<rparr>)
      else (Inl QuotaExceededError, w\<lparr>trace := trace w @ [SetItemFailed TEMPLATES]\<rparr>))"

definition setItem_contracts ::
  "env \<Rightarrow> SignedContract list \<Rightarrow> world \<Rightarrow> (js_error + unit) \<times> world" where
  "setItem_contracts e v w =
     (let s = (store w)\<lparr>contracts_item := Some v\<rparr> in
      if quota e s then (Inr (), w\<lparr>store := s, trace := trace w @ [SetItem CONTRACTS]\<rparr>)
      else (Inl QuotaExceededError, w\<lparr>trace := trace w @ [SetItemFailed CONTRACTS]\<rparr>))"

section \<open>The record store (services/mockBackend.ts)\<close>

definition DEFAULT_TEMPLATES :: "env \<Rightarrow> ContractTemplate list" where
  "DEFAULT_TEMPLATES e =
    [\<lparr>t_id = js ''tpl_001'',
      t_name = [0xD504, 0xB9AC, 0xBBF8, 0xC5C4, 0x20, 0xBA64, 0xBC84, 0xC2ED, 0x20, 0xAC00,
                0xC785, 0x20, 0xC2E0, 0xCCAD, 0xC11C],
      t_type = MEMBERSHIP, createdAt = created1 e, basePdfUrl = None,
      fileSize = Some (js ''1.2 MB''), pageCount = Some 3\<rparr>,
     \<lparr>t_id = js ''tpl_002'',
      t_name = [0xC2DC, 0xC124, 0x20, 0xC774, 0xC6A9, 0x20, 0xBC0F, 0x20, 0xBA74, 0xCC45,
                0x20, 0xB3D9, 0xC758, 0xC11C],
      t_type = WAIVER, createdAt = created2 e, basePdfUrl = None,
      fileSize = Some (js ''850 KB''), pageCount = Some 1\<rparr>,
     \<lparr>t_id = js ''tpl_003'',
      t_name = [0x31, 0x3A, 0x31, 0x20, 0xD504, 0xB77C, 0xC774, 0xBE57, 0x20, 0xB808,
                0xC2A8, 0x20, 0xACC4, 0xC57D, 0xC11C],
      t_type = PT_AGREEMENT, createdAt = created3 e, basePdfUrl = None,
      fileSize = Some (js ''1.5 MB''), pageCount = Some 2\<rparr>]"

definition getTemplates :: "env \<Rightarrow> world \<Rightarrow> (js_error + ContractTemplate list) \<times> world" where
  "getTemplates e w0 =
     (let w1 = delay 300 w0 in
      case templates_item (store w1) of
        None \<Rightarrow>
          (case setItem_templates e (DEFAULT_TEMPLATES e) w1 of
             (Inl err, w2) \<Rightarrow> (Inl err, w2)
           | (Inr _, w2) \<Rightarrow> (Inr (DEFAULT_TEMPLATES e), w2))
      | Some stored \<Rightarrow> (Inr stored, w1))"

text \<open>
  The record \<open>uploadTemplate\<close> builds: \<open>now\<close> is the reading of \<^verbatim>\<open>Date.now()\<close>, \<open>isoNow\<close> the
  value of \<^verbatim>\<open>new Date().toISOString()\<close>; \<^verbatim>\<open>a || b\<close> takes \<open>b\<close> when \<open>a\<close> is absent, the empty
  string or zero.
\<close>

definition newTemplate :: "int \<Rightarrow> jsstring \<Rightarrow> TemplateDraft \<Rightarrow> ContractTemplate" where
  "newTemplate now isoNow template =
     \<lparr>t_id = js ''tpl_'' @ number_toString now,
      t_name = d_name template,
      t_type = d_type template,
      createdAt = isoNow,
      basePdfUrl = d_basePdfUrl template,
      fileSize = Some (case d_fileSize template of
                         None \<Rightarrow> js ''1.0 MB''
                       | Some s \<Rightarrow> if s = [] then js ''1.0 MB'' else s),
      pageCount = Some (case d_pageCount template of
                          None \<Rightarrow> 1
                        | Some n \<Rightarrow> if n = 0 then 1 else n)\<rparr>"

definition uploadTemplate ::
  "env \<Rightarrow> int \<Rightarrow> jsstring \<Rightarrow> TemplateDraft \<Rightarrow> world \<Rightarrow> (js_error + ContractTemplate) \<times> world" where
  "uploadTemplate e now isoNow template w0 =
     (let w1 = delay 500 w0;
          new = newTemplate now isoNow template
      in case getTemplates e w1 of
           (Inl err, w2) \<Rightarrow> (Inl err, w2)
         | (Inr current, w2) \<Rightarrow>
             (case setItem_templates e (new # current) w2 of
                (Inr _, w3) \<Rightarrow> (Inr new, w3)
              | (Inl _, w3) \<Rightarrow>
                  (let w4 = console ''LocalStorage quota exceeded. Saving template without PDF body.'' w3;
                       fallbackTemplate = new\<lparr>basePdfUrl := None\<rparr>
                   in case setItem_templates e (fallbackTemplate # current) w4 of
                        (Inr _, w5) \<Rightarrow> (Inr new, w5)
                      | (Inl e2, w5) \<Rightarrow>
                          (Inl e2, console ''Critical: Cannot save template metadata'' w5))))"

definition getSignedContracts :: "world \<Rightarrow> SignedContract list \<times> world" where
  "getSignedContracts w0 =
     (let w1 = delay 300 w0 in
      case contracts_item (store w1) of
        None \<Rightarrow> ([], w1)
      | Some stored \<Rightarrow> (stored, w1))"


definition newContract :: "int \<Rightarrow> ContractDraft \<Rightarrow> SignedContract" where
  "newContract now contract =
     \<lparr>c_id = js ''cnt_'' @ number_toString now,
      templateId = d_templateId contract,
      templateName = d_templateName contract,
      signerName = d_signerName contract,
      signerPhone = d_signerPhone contract,
      signerEmail = d_signerEmail contract,
      signedAt = d_signedAt contract,
      pdfDataUrl = d_pdfDataUrl contract,
      status = SENT\<rparr>"

text \<open>
  Step 3 of \<open>saveSignedContract\<close>: the \<^verbatim>\<open>try\<close> block around \<^verbatim>\<open>fetch\<close>. Every outcome ends in
  a console message; \<^verbatim>\<open>response.text()\<close> failing (\<open>ResponseNotOk None\<close>) is caught like an
  unreachable server.
\<close>

definition forward :: "fetch_outcome \<Rightarrow> SignedContract \<Rightarrow> world \<Rightarrow> world" where
  "forward remote new w0 =
     (let w1 = console ''Attemping to send to backend server...'' w0;
          w2 = w1\<lparr>trace := trace w1 @ [Fetch new]\<rparr>
      in case remote of
           ResponseOk \<Rightarrow> console ''Successfully sent to backend server for emailing.'' w2
         | ResponseNotOk (Some body) \<Rightarrow> console ''Backend server returned error:'' w2
         | ResponseNotOk None \<Rightarrow>
             console ''Backend server is not reachable. Email might not be sent.'' w2
         | Unreachable \<Rightarrow>
             console ''Backend server is not reachable. Email might not be sent.'' w2)"

definition saveSignedContract ::
  "env \<Rightarrow> fetch_outcome \<Rightarrow> int \<Rightarrow> ContractDraft \<Rightarrow> world \<Rightarrow> (js_error + SignedContract) \<times> world" where
  "saveSignedContract e remote now contract w0 =
     (let new = newContract now contract
      in case getSignedContracts w0 of
           (current, w1) \<Rightarrow>
             (case setItem_contracts e (new # current) w1 of
                (Inl err, w2) \<Rightarrow> (Inl err, w2)
              | (Inr _, w2) \<Rightarrow> (Inr new, forward remote new w2)))"


section \<open>Document synthesis (services/pdfService.ts)\<close>

text \<open>The regular expression \<^verbatim>\<open>/^[\x00-\x7F]*$/\<close>: every code unit is at most \<open>0x7F\<close>.\<close>

definition sanitizeForPdf :: "jsstring \<Rightarrow> jsstring \<Rightarrow> jsstring" where
  "sanitizeForPdf text fallback =
     (let isAscii = list_all (\<lambda>c. c \<le> 0x7F) text in if isAscii then text else fallback)"

text \<open>
  \<^verbatim>\<open>toUpperCase\<close> as it acts on ASCII text. The service applies it to a result of
  \<open>sanitizeForPdf\<close> only, which is ASCII (lemma \<open>sanitizeForPdf_ascii\<close> below).
\<close>

definition ascii_upper :: "jschar \<Rightarrow> jschar" where
  "ascii_upper c = (if 0x61 \<le> c \<and> c \<le> 0x7A then c - 0x20 else c)"

definition toUpperCase :: "jsstring \<Rightarrow> jsstring" where
  "toUpperCase s = map ascii_upper s"

text \<open>\<^verbatim>\<open>Array.prototype.join\<close>.\<close>

fun array_join :: "jsstring \<Rightarrow> jsstring list \<Rightarrow> jsstring" where
  "array_join sep [] = []"
| "array_join sep [x] = x"
| "array_join sep (x # y # xs) = x @ sep @ array_join sep (y # xs)"

text \<open>
  The page is the list of what was drawn on it, in order. Coordinates are the exact
  rationals of the source's literals (the browser computes them in double precision).
\<close>

datatype font = Helvetica | HelveticaBold

datatype png_image = PngImage nat nat

datatype draw_op =
    DrawText jsstring rat rat nat font "(rat \<times> rat \<times> rat) option" "nat option" "rat option"
  | DrawImage png_image rat rat rat rat

datatype pdf_error = EncodingError jsstring

text \<open>
  What the service uses of pdf-lib and of the browser: the characters \<^verbatim>\<open>drawText\<close> accepts
  with a standard font (it throws on a text with any other character), \<^verbatim>\<open>window.atob\<close>
  (\<open>None\<close>: it throws), \<^verbatim>\<open>embedPng\<close> (\<open>None\<close>: it throws), the bytes \<^verbatim>\<open>save\<close> produces for a
  page, and the value of \<^verbatim>\<open>new Date().toLocaleDateString()\<close>.
\<close>

record pdflib =
  canEncode :: "jschar \<Rightarrow> bool"
  atob :: "jsstring \<Rightarrow> jsstring option"
  embedPng :: "8 word list \<Rightarrow> png_image option"
  save :: "draw_op list \<Rightarrow> 8 word list"
  toLocaleDateString :: jsstring

definition drawText ::
  "pdflib \<Rightarrow> draw_op list \<Rightarrow> jsstring \<Rightarrow> rat \<Rightarrow> rat \<Rightarrow> nat \<Rightarrow> font \<Rightarrow>
   (rat \<times> rat \<times> rat) option \<Rightarrow> nat option \<Rightarrow> rat option \<Rightarrow> pdf_error + draw_op list" where
  "drawText lib page text x y sz fnt color lineHeight maxWidth =
     (if list_all (canEncode lib) text
      then Inr (page @ [DrawText text x y sz fnt color lineHeight maxWidth])
      else Inl (EncodingError text))"

text \<open>The template literal of step 4, line by line.\<close>

definition bodyText :: "jsstring \<Rightarrow> SignerInfo \<Rightarrow> jsstring \<Rightarrow> jsstring" where
  "bodyText safeSignerName signer safeAddress = array_join [0x0A]
    [[],
     js ''      This Agreement is entered into between '' @ safeSignerName
       @ js '' ('' @ [0x22] @ js ''Member'' @ [0x22] @ js '') and the Facility.'',
     js ''      '',
     js ''      1. TERMS OF SERVICE'',
     js ''      The Member agrees to abide by all rules and regulations of the facility. The facility reserves the right'',
     js ''      to terminate membership for violation of these rules.'',
     [],
     js ''      2. LIABILITY WAIVER'',
     js ''      I, the undersigned, acknowledge the risks involved in physical activity and hereby release the facility '',
     js ''      from any liability for injuries sustained on the premises.'',
     [],
     js ''      3. PAYMENT'',
     js ''      The Member agrees to pay all fees associated with this membership.'',
     js ''      '',
     js ''      4. PERSONAL INFORMATION'',
     js ''      Phone: '' @ phone signer,
     js ''      Email: '' @ email signer,
     js ''      DOB: '' @ dob signer,
     js ''      Address: '' @ safeAddress,
     js ''      '']"

text \<open>
  The \<^verbatim>\<open>try\<close> block of step 5 up to \<^verbatim>\<open>embedPng\<close>: \<open>None\<close> when \<^verbatim>\<open>atob\<close> or \<^verbatim>\<open>embedPng\<close> throws.
  \<^verbatim>\<open>atob(undefined)\<close> is \<^verbatim>\<open>atob("undefined")\<close>; storing a code unit in a \<^verbatim>\<open>Uint8Array\<close> keeps its
  low byte.
\<close>

definition decodeSignature :: "pdflib \<Rightarrow> jsstring \<Rightarrow> png_image option" where
  "decodeSignature lib signatureDataUrl =
     (let base64Data = (case split_comma_1 signatureDataUrl of
                          None \<Rightarrow> js ''undefined'' | Some s \<Rightarrow> s)
      in case atob lib base64Data of
           None \<Rightarrow> None
         | Some binaryString \<Rightarrow> embedPng lib (map ucast binaryString))"

definition drawSignature ::
  "pdflib \<Rightarrow> draw_op list \<Rightarrow> jsstring \<Rightarrow> jsstring \<Rightarrow> pdf_error + draw_op list" where
  "drawSignature lib page safeSignerName signatureDataUrl =
     (case (case decodeSignature lib signatureDataUrl of
              Some (PngImage w h) \<Rightarrow>
                Inr (page @ [DrawImage (PngImage w h) 50 100 (of_nat w / 2) (of_nat h / 2)])
            | None \<Rightarrow>
                drawText lib page (js ''(Signature Image Failed to Load)'') 50 100 10 Helvetica
                  (Some (1, 0, 0)) None None) of
        Inl err \<Rightarrow> Inl err
      | Inr page1 \<Rightarrow>
          (case drawText lib page1 (js ''Signed By:'') 50 (100 + 100) 10 HelveticaBold
                  None None None of
             Inl err \<Rightarrow> Inl err
           | Inr page2 \<Rightarrow>
               drawText lib page2 safeSignerName 110 (100 + 100) 10 Helvetica None None None))"

text \<open>Steps 1 to 5 of \<open>generateContractPDF\<close>: the page, or the error thrown.\<close>

definition renderContract ::
  "pdflib \<Rightarrow> ContractTemplate \<Rightarrow> SignerInfo \<Rightarrow> jsstring \<Rightarrow> pdf_error + draw_op list" where
  "renderContract lib template signer signatureDataUrl =
     (let width = 59528 / 100; height = 84189 / 100;
          displayTitle = sanitizeForPdf (t_name template) (js ''Electronic Contract Agreement'')
      in case drawText lib [] (toUpperCase displayTitle) 50 (height - 60) 20 HelveticaBold
                (Some (0, 0, 0)) None None of
           Inl err \<Rightarrow> Inl err
         | Inr page1 \<Rightarrow>
        (case drawText lib page1 (js ''Date: '' @ toLocaleDateString lib) 50 (height - 90) 12
                Helvetica None None None of
           Inl err \<Rightarrow> Inl err
         | Inr page2 \<Rightarrow>
        (let safeSignerName = sanitizeForPdf (s_name signer) (js ''Member'');
             safeAddress = sanitizeForPdf (address signer) (js ''[Address on File]'')
         in case drawText lib page2 (bodyText safeSignerName signer safeAddress) 50 (height - 150)
                   12 Helvetica None (Some 18) (Some (width - 100)) of
              Inl err \<Rightarrow> Inl err
            | Inr page3 \<Rightarrow>
                if signatureDataUrl \<noteq> []
                then drawSignature lib page3 safeSignerName signatureDataUrl
                else Inr page3)))"

text \<open>\<open>_arrayBufferToBase64\<close>: \<^verbatim>\<open>btoa\<close> of the string whose code units are the bytes.\<close>

definition base64_digit :: "nat \<Rightarrow> jschar" where
  "base64_digit i =
     js ''ABCDEFGHIJKLMNOPQRSTUVWXYZabcdefghijklmnopqrstuvwxyz0123456789+/'' ! i"

fun arrayBufferToBase64 :: "8 word list \<Rightarrow> jsstring" where
  "arrayBufferToBase64 [] = []"
| "arrayBufferToBase64 [a] =
     [base64_digit (unat a div 4), base64_digit (unat a mod 4 * 16), 0x3D, 0x3D]"
| "arrayBufferToBase64 [a, b] =
     [base64_digit (unat a div 4), base64_digit (unat a mod 4 * 16 + unat b div 16),
      base64_digit (unat b mod 16 * 4), 0x3D]"
| "arrayBufferToBase64 (a # b # c # rest) =
     [base64_digit (unat a div 4), base64_digit (unat a mod 4 * 16 + unat b div 16),
      base64_digit (unat b mod 16 * 4 + unat c div 64), base64_digit (unat c mod 64)]
     @ arrayBufferToBase64 rest"

definition generateContractPDF ::
  "pdflib \<Rightarrow> ContractTemplate \<Rightarrow> SignerInfo \<Rightarrow> jsstring \<Rightarrow> pdf_error + jsstring" where
  "generateContractPDF lib template signer signatureDataUrl =
     (case renderContract lib template signer signatureDataUrl of
        Inl err \<Rightarrow> Inl err
      | Inr page \<Rightarrow>
          Inr (js ''data:application/pdf;base64,'' @ arrayBufferToBase64 (save lib page)))"

text \<open>
  Reading base64 back: the position of a digit in the alphabet, the three bytes four digits
  stand for, and the bytes of a padded text (what \<^verbatim>\<open>atob\<close> gives for the output of
  \<^verbatim>\<open>btoa\<close>). Used to say what \<open>arrayBufferToBase64\<close> produces.
\<close>

definition base64_index :: "jschar \<Rightarrow> nat" where
  "base64_index c =
     (if 0x41 \<le> c \<and> c \<le> 0x5A then unat c - 65
      else if 0x61 \<le> c \<and> c \<le> 0x7A then unat c - 71
      else if 0x30 \<le> c \<and> c \<le> 0x39 then unat c + 4
      else if c = 0x2B then 62 else 63)"

definition octet1 :: "nat \<Rightarrow> nat \<Rightarrow> 8 word" where
  "octet1 i j = of_nat (i * 4 + j div 16)"

definition octet2 :: "nat \<Rightarrow> nat \<Rightarrow> 8 word" where
  "octet2 j k = of_nat (j mod 16 * 16 + k div 4)"

definition octet3 :: "nat \<Rightarrow> nat \<Rightarrow> 8 word" where
  "octet3 k l = of_nat (k mod 4 * 64 + l)"

fun base64_decode :: "jsstring \<Rightarrow> 8 word list" where
  "base64_decode (a # b # c # d # rest) =
     (let i = base64_index a; j = base64_index b; k = base64_index c; l = base64_index d in
      if c = 0x3D then [octet1 i j]
      else if d = 0x3D then [octet1 i j, octet2 j k]
      else octet1 i j # octet2 j k # octet3 k l # base64_decode rest)"
| "base64_decode _ = []"

section \<open>The dashboard (pages/AdminDashboard.tsx)\<close>

text \<open>
  What the dashboard uses of \<^verbatim>\<open>Date\<close>: for a date string, \<^verbatim>\<open>getFullYear()\<close> and \<^verbatim>\<open>getMonth()\<close>
  (0 to 11) of \<^verbatim>\<open>new Date(s)\<close> in local time, \<open>None\<close> for an invalid date; its
  \<^verbatim>\<open>toLocaleString()\<close>; and \<^verbatim>\<open>new Date().toISOString()\<close>.
\<close>

record dates =
  localYearMonth :: "jsstring \<Rightarrow> (int \<times> nat) option"
  toLocaleString :: "jsstring \<Rightarrow> jsstring"
  nowISO :: jsstring

text \<open>What the user sees of a handler: alerts, downloads, the busy marker, the console.\<close>

datatype ui_effect =
    Alert jsstring
  | Download jsstring jsstring
  | SetIsZipping "jsstring option"
  | ConsoleError string

definition padStart :: "nat \<Rightarrow> jschar \<Rightarrow> jsstring \<Rightarrow> jsstring" where
  "padStart n c s = replicate (n - length s) c @ s"

text \<open>An invalid date has year and month \<^verbatim>\<open>NaN\<close>, and \<^verbatim>\<open>String(NaN + 1)\<close> is \<^verbatim>\<open>NaN\<close>.\<close>

definition getGroupKey :: "dates \<Rightarrow> jsstring \<Rightarrow> jsstring" where
  "getGroupKey dt dateStr =
     (case localYearMonth dt dateStr of
        None \<Rightarrow> js ''NaN'' @ js ''-'' @ padStart 2 0x30 (js ''NaN'')
      | Some (year, month0) \<Rightarrow>
          number_toString year @ js ''-'' @ padStart 2 0x30 (number_toString (int month0 + 1)))"

text \<open>
  The object built by \<^verbatim>\<open>reduce\<close>: keys in the order they were first set, each with its
  array; \<open>group_push\<close> is \<^verbatim>\<open>if (!groups[key]) groups[key] = []; groups[key].push(contract)\<close>.
\<close>

fun group_push ::
  "jsstring \<Rightarrow> SignedContract \<Rightarrow> (jsstring \<times> SignedContract list) list \<Rightarrow>
   (jsstring \<times> SignedContract list) list" where
  "group_push k c [] = [(k, [c])]"
| "group_push k c ((k', cs) # gs) =
     (if k = k' then (k', cs @ [c]) # gs else (k', cs) # group_push k c gs)"

definition groupedContracts ::
  "dates \<Rightarrow> SignedContract list \<Rightarrow> (jsstring \<times> SignedContract list) list" where
  "groupedContracts dt contracts =
     foldl (\<lambda>groups contract. group_push (getGroupKey dt (signedAt contract)) contract groups)
       [] contracts"

text \<open>\<^verbatim>\<open>Object.keys(groupedContracts).sort().reverse()\<close>: strings sorted by code units.\<close>

definition sortedGroupKeys :: "dates \<Rightarrow> SignedContract list \<Rightarrow> jsstring list" where
  "sortedGroupKeys dt contracts = rev (sort (map fst (groupedContracts dt contracts)))"

definition no_contracts_message :: jsstring where
  "no_contracts_message =
     [0xB0B4, 0xBCF4, 0xB0BC, 0x20, 0xACC4, 0xC57D, 0x20, 0xB370, 0xC774, 0xD130, 0xAC00, 0x20,
      0xC5C6, 0xC2B5, 0xB2C8, 0xB2E4, 0x2E]"

definition no_pdf_message :: jsstring where
  "no_pdf_message =
     [0xB2E4, 0xC6B4, 0xB85C, 0xB4DC, 0xD560, 0x20, 0x50, 0x44, 0x46, 0x20, 0xB370, 0xC774,
      0xD130, 0xAC00, 0x20, 0xC5C6, 0xC2B5, 0xB2C8, 0xB2E4, 0x2E]"

definition zip_failed_message :: jsstring where
  "zip_failed_message =
     [0xC555, 0xCD95, 0x20, 0xD30C, 0xC77C, 0x20, 0xC0DD, 0xC131, 0x20, 0xC911, 0x20, 0xC624,
      0xB958, 0xAC00, 0x20, 0xBC1C, 0xC0DD, 0xD588, 0xC2B5, 0xB2C8, 0xB2E4, 0x2E]"

definition handleExportCSV :: "dates \<Rightarrow> SignedContract list \<Rightarrow> ui_effect list" where
  "handleExportCSV dt contracts =
     (if length contracts = 0 then [Alert no_contracts_message]
      else
        (let headers = [js ''Contract ID'', js ''Template'', js ''Signer Name'', js ''Phone'',
                        js ''Email'', js ''Signed Date''];
             rows = map (\<lambda>c. [c_id c, templateName c, signerName c, signerPhone c,
                               signerEmail c, toLocaleString dt (signedAt c)]) contracts;
             csvContent = array_join [0x0A]
               (array_join (js '','') headers
                # map (\<lambda>row. array_join (js '','') (map (\<lambda>item. [0x22] @ item @ [0x22]) row)) rows)
         in [Download (js ''Contracts_Export_'' @ take 10 (nowISO dt) @ js ''.csv'')
                      ([0xFEFF] @ csvContent)]))"

text \<open>
  What the dashboard uses of JSZip: whether \<^verbatim>\<open>zip.folder(name)\<close> gives a folder, and the
  archive \<^verbatim>\<open>generateAsync\<close> produces for a folder and its files (\<open>None\<close>: it throws).
\<close>

record jszip =
  folder :: "jsstring \<Rightarrow> bool"
  generateAsync :: "jsstring \<Rightarrow> (jsstring \<times> jsstring) list \<Rightarrow> jsstring option"

text \<open>
  One round of the \<^verbatim>\<open>forEach\<close> of \<open>handleDownloadZip\<close>, on the files added so far and the
  counter. \<^verbatim>\<open>id.slice(-4)\<close> is the last four code units (all of a shorter string).
\<close>

definition add_to_zip ::
  "(jsstring \<times> jsstring) list \<times> nat \<Rightarrow> SignedContract \<Rightarrow> (jsstring \<times> jsstring) list \<times> nat" where
  "add_to_zip acc contract =
     (case acc of (files, count) \<Rightarrow>
        if pdfDataUrl contract \<noteq> [] then
          (case split_comma_1 (pdfDataUrl contract) of
             None \<Rightarrow> (files, count)
           | Some base64Data \<Rightarrow>
               if base64Data \<noteq> [] then
                 (let fileName = signerName contract @ js ''_'' @ templateName contract @ js ''_''
                        @ drop (length (c_id contract) - 4) (c_id contract) @ js ''.pdf''
                  in (files @ [(fileName, base64Data)], count + 1))
               else (files, count))
        else (files, count))"

definition handleDownloadZip :: "jszip \<Rightarrow> jsstring \<Rightarrow> SignedContract list \<Rightarrow> ui_effect list" where
  "handleDownloadZip jz groupKey groupContracts =
     [SetIsZipping (Some groupKey)] @
     (let folderName = js ''Contracts_'' @ groupKey in
      if \<not> folder jz folderName then []
      else
        (case foldl add_to_zip ([], 0) groupContracts of
           (files, count) \<Rightarrow>
             if count = 0 then [Alert no_pdf_message]
             else
               (case generateAsync jz folderName files of
                  None \<Rightarrow> [ConsoleError ''ZIP Generation failed:'', Alert zip_failed_message]
                | Some content \<Rightarrow> [Download (folderName @ js ''.zip'') content]))) @
     [SetIsZipping None]"

text \<open>
  A contract has a document payload when its \<open>pdfDataUrl\<close> is not empty and has a non-empty
  part after the first comma (the two tests of \<open>handleDownloadZip\<close>); \<open>zip_file\<close> is the
  archive entry of such a contract.
\<close>

definition has_payload :: "SignedContract \<Rightarrow> bool" where
  "has_payload c =
     (pdfDataUrl c \<noteq> [] \<and>
      (case split_comma_1 (pdfDataUrl c) of None \<Rightarrow> False | Some b \<Rightarrow> b \<noteq> []))"

definition zip_file :: "SignedContract \<Rightarrow> jsstring \<times> jsstring" where
  "zip_file c =
     (signerName c @ js ''_'' @ templateName c @ js ''_''
        @ drop (length (c_id c) - 4) (c_id c) @ js ''.pdf'',
      case split_comma_1 (pdfDataUrl c) of None \<Rightarrow> [] | Some b \<Rightarrow> b)"

text \<open>
  A period is a year and a month (0 to 11, as \<^verbatim>\<open>getMonth()\<close> counts), ordered by year and then
  month; \<open>period_key\<close> is the text \<open>getGroupKey\<close> gives for it, \<open>period_of\<close> the period in
  which a contract was signed in local time, and \<open>four_digit_period\<close> says that the signing
  date is a valid date in the years 1000 to 9999.
\<close>

definition period_key :: "int \<times> nat \<Rightarrow> jsstring" where
  "period_key p =
     (case p of (year, month0) \<Rightarrow>
        number_toString year @ js ''-'' @ padStart 2 0x30 (number_toString (int month0 + 1)))"

definition period_of :: "dates \<Rightarrow> SignedContract \<Rightarrow> int \<times> nat" where
  "period_of dt c = (case localYearMonth dt (signedAt c) of None \<Rightarrow> (0, 0) | Some p \<Rightarrow> p)"

definition four_digit_period :: "dates \<Rightarrow> SignedContract \<Rightarrow> bool" where
  "four_digit_period dt c =
     (case localYearMonth dt (signedAt c) of
        None \<Rightarrow> False
      | Some (year, month0) \<Rightarrow> 1000 \<le> year \<and> year \<le> 9999 \<and> month0 < 12)"

text \<open>Strings of decimal digits.\<close>

definition is_digits :: "jsstring \<Rightarrow> bool" where
  "is_digits s = list_all (\<lambda>c. 48 \<le> unat c \<and> unat c \<le> 57) s"


section \<open>Reading the store; sequences of calls\<close>

text \<open>What \<open>listContracts\<close> and \<open>listTemplates\<close> return for a state of the storage.\<close>

definition stored_contracts :: "world \<Rightarrow> SignedContract list" where
  "stored_contracts w = (case contracts_item (store w) of None \<Rightarrow> [] | Some cs \<Rightarrow> cs)"

definition stored_templates :: "env \<Rightarrow> world \<Rightarrow> ContractTemplate list" where
  "stored_templates e w =
     (case templates_item (store w) of None \<Rightarrow> DEFAULT_TEMPLATES e | Some ts \<Rightarrow> ts)"

text \<open>
  A sequence of adds, each with the clock reading (and, for a contract, the answer of the
  remote server) it meets; \<open>run_calls\<close> makes the calls one after the other.
\<close>

datatype add_call =
    AddTemplate int jsstring TemplateDraft
  | AddContract fetch_outcome int ContractDraft

fun run_call :: "env \<Rightarrow> add_call \<Rightarrow> world \<Rightarrow> world" where
  "run_call e (AddTemplate now isoNow t) w = snd (uploadTemplate e now isoNow t w)"
| "run_call e (AddContract remote now c) w = snd (saveSignedContract e remote now c w)"

fun run_calls :: "env \<Rightarrow> add_call list \<Rightarrow> world \<Rightarrow> world" where
  "run_calls e [] w = w"
| "run_calls e (c # cs) w = run_calls e cs (run_call e c w)"

fun template_clock :: "add_call list \<Rightarrow> int list" where
  "template_clock [] = []"
| "template_clock (AddTemplate now _ _ # cs) = now # template_clock cs"
| "template_clock (AddContract _ _ _ # cs) = template_clock cs"

fun contract_clock :: "add_call list \<Rightarrow> int list" where
  "contract_clock [] = []"
| "contract_clock (AddTemplate _ _ _ # cs) = contract_clock cs"
| "contract_clock (AddContract _ now _ # cs) = now # contract_clock cs"

text \<open>The number a string of decimal digits denotes (used to read \<open>decimal\<close> back).\<close>

definition digit_value :: "jsstring \<Rightarrow> nat" where
  "digit_value s = foldl (\<lambda>a c. 10 * a + (unat c - 48)) 0 s"

section \<open>Sample environments and inputs\<close>

text \<open>
  \<open>roomy_env\<close> never runs out of storage; \<open>metadata_only_env\<close> has room for template records
  only as long as none carries a PDF body; \<open>full_env\<close> accepts no write at all. Their
  \<open>toLowerCase\<close> folds the ASCII letters.
\<close>

definition ascii_lower :: "jschar \<Rightarrow> jschar" where
  "ascii_lower c = (if 0x41 \<le> c \<and> c \<le> 0x5A then c + 0x20 else c)"

definition roomy_env :: env where
  "roomy_env = \<lparr>quota = (\<lambda>s. True),
     created1 = js ''2024-05-03T09:00:00.000Z'',
     created2 = js ''2024-05-02T09:00:00.000Z'',
     created3 = js ''2024-05-01T09:00:00.000Z'',
     toLowerCase = map ascii_lower\<rparr>"

definition metadata_only_env :: env where
  "metadata_only_env = roomy_env\<lparr>quota :=
     (\<lambda>s. case templates_item s of None \<Rightarrow> True
          | Some ts \<Rightarrow> list_all (\<lambda>t. basePdfUrl t = None) ts)\<rparr>"

definition full_env :: env where
  "full_env = roomy_env\<lparr>quota := (\<lambda>s. False)\<rparr>"

definition fresh :: world where
  "fresh = \<lparr>store = \<lparr>templates_item = None, contracts_item = None\<rparr>, trace = []\<rparr>"

definition sample_contract :: ContractDraft where
  "sample_contract = \<lparr>d_templateId = js ''tpl_001'', d_templateName = js ''Waiver'',
     d_signerName = js ''Hong Gildong'', d_signerPhone = js ''010-1234-5678'',
     d_signerEmail = js ''hong@x.com'', d_signedAt = js ''2024-05-03T09:00:00.000Z'',
     d_pdfDataUrl = js ''data:application/pdf;base64,JVBERg==''\<rparr>"

definition sample_template :: TemplateDraft where
  "sample_template = \<lparr>d_name = js ''waiver'', d_type = WAIVER,
     d_basePdfUrl = Some (js ''data:application/pdf;base64,JVBERg==''),
     d_fileSize = Some (js ''2.0 MB''), d_pageCount = Some 4\<rparr>"

text \<open>
  \<open>sample_zip\<close> always gives a folder and an archive. \<open>strict_pdflib\<close> is a library whose font
  encodes the printable ASCII characters and the line feed and nothing else, in which no
  signature can be decoded, and whose serialization of a page is the bytes of \<^verbatim>\<open>%PDF\<close>
  followed by the number of things drawn.
\<close>

definition sample_zip :: jszip where
  "sample_zip = \<lparr>folder = (\<lambda>name. True),
                  generateAsync = (\<lambda>name files. Some (concat (map snd files)))\<rparr>"

definition strict_pdflib :: pdflib where
  "strict_pdflib = \<lparr>canEncode = (\<lambda>c. c = 0x0A \<or> (0x20 \<le> c \<and> c \<le> 0x7E)),
                     atob = (\<lambda>s. None),
                     embedPng = (\<lambda>bytes. None),
                     save = (\<lambda>page. [0x25, 0x50, 0x44, 0x46, of_nat (length page)]),
                     toLocaleDateString = js ''5/3/2024''\<rparr>"

definition sample_signer :: SignerInfo where
  "sample_signer = \<lparr>s_name = js ''Hong Gildong'', phone = js ''010-1234-5678'',
     email = js ''hong@x.com'', address = js ''Seoul'', dob = js ''1990-01-01''\<rparr>"

definition korean_template :: ContractTemplate where
  "korean_template = \<lparr>t_id = js ''tpl_001'',
     t_name = [0xAC00, 0xC785, 0xC2E0, 0xCCAD, 0xC11C], t_type = MEMBERSHIP,
     createdAt = js ''2024-05-03T09:00:00.000Z'', basePdfUrl = None,
     fileSize = Some (js ''1.2 MB''), pageCount = Some 3\<rparr>"

text \<open>
  \<open>sample_dates\<close> knows the months of May and June 2024;
  \<open>signed_on d\<close> is a contract signed at \<open>d\<close>.
\<close>

definition sample_dates :: dates where
  "sample_dates =
     \<lparr>localYearMonth = (\<lambda>s. if take 7 s = js ''2024-05'' then Some (2024, 4)
                             else if take 7 s = js ''2024-06'' then Some (2024, 5)
                             else None),
      toLocaleString = (\<lambda>s. s),
      nowISO = js ''2024-06-30T12:00:00.000Z''\<rparr>"

definition signed_on :: "jsstring \<Rightarrow> SignedContract" where
  "signed_on d = (newContract 1714726800000 sample_contract)\<lparr>signedAt := d\<rparr>"







section \<open>Properties\<close>

subsection \<open>Effects and defining equations of the store operations\<close>

lemma store_delay [simp]: "store (delay n w) = store w"
  by (simp add: delay_def)

lemma trace_delay [simp]: "trace (delay n w) = trace w @ [Delay n]"
  by (simp add: delay_def)

lemma store_console [simp]: "store (console m w) = store w"
  by (simp add: console_def)

lemma trace_console [simp]: "trace (console m w) = trace w @ [Console m]"
  by (simp add: console_def)

lemma getSignedContracts_eq: "getSignedContracts w = (stored_contracts w, delay 300 w)"
  by (simp add: getSignedContracts_def stored_contracts_def Let_def split: option.splits)

lemma store_forward [simp]: "store (forward remote c w) = store w"
  by (simp add: forward_def Let_def split: fetch_outcome.splits option.splits)

lemma saveSignedContract_eq:
  "saveSignedContract e remote now d w =
     (if quota e ((store w)\<lparr>contracts_item := Some (newContract now d # stored_contracts w)\<rparr>)
      then (Inr (newContract now d),
            forward remote (newContract now d)
              ((delay 300 w)\<lparr>store := (store w)\<lparr>contracts_item := Some (newContract now d # stored_contracts w)\<rparr>,
                 trace := trace w @ [Delay 300, SetItem CONTRACTS]\<rparr>))
      else (Inl QuotaExceededError, (delay 300 w)\<lparr>trace := trace w @ [Delay 300, SetItemFailed CONTRACTS]\<rparr>))"
  by (simp add: saveSignedContract_def getSignedContracts_eq setItem_contracts_def Let_def)

lemma getTemplates_eq:
  "getTemplates e w =
     (case templates_item (store w) of
        Some ts \<Rightarrow> (Inr ts, delay 300 w)
      | None \<Rightarrow>
          if quota e ((store w)\<lparr>templates_item := Some (DEFAULT_TEMPLATES e)\<rparr>)
          then (Inr (DEFAULT_TEMPLATES e),
                (delay 300 w)\<lparr>store := (store w)\<lparr>templates_item := Some (DEFAULT_TEMPLATES e)\<rparr>,
                               trace := trace w @ [Delay 300, SetItem TEMPLATES]\<rparr>)
          else (Inl QuotaExceededError,
                (delay 300 w)\<lparr>trace := trace w @ [Delay 300, SetItemFailed TEMPLATES]\<rparr>))"
  by (simp add: getTemplates_def setItem_templates_def Let_def split: option.splits)

lemma uploadTemplate_after_get:
  assumes "getTemplates e (delay 500 w) = (Inr current, w2)"
  shows "uploadTemplate e now isoNow t w =
     (if quota e ((store w2)\<lparr>templates_item := Some (newTemplate now isoNow t # current)\<rparr>)
      then (Inr (newTemplate now isoNow t),
            w2\<lparr>store := (store w2)\<lparr>templates_item := Some (newTemplate now isoNow t # current)\<rparr>,
               trace := trace w2 @ [SetItem TEMPLATES]\<rparr>)
      else if quota e ((store w2)\<lparr>templates_item :=
                          Some ((newTemplate now isoNow t)\<lparr>basePdfUrl := None\<rparr> # current)\<rparr>)
      then (Inr (newTemplate now isoNow t),
            w2\<lparr>store := (store w2)\<lparr>templates_item :=
                          Some ((newTemplate now isoNow t)\<lparr>basePdfUrl := None\<rparr> # current)\<rparr>,
               trace := trace w2 @ [SetItemFailed TEMPLATES,
                  Console ''LocalStorage quota exceeded. Saving template without PDF body.'',
                  SetItem TEMPLATES]\<rparr>)
      else (Inl QuotaExceededError,
            w2\<lparr>trace := trace w2 @ [SetItemFailed TEMPLATES,
                  Console ''LocalStorage quota exceeded. Saving template without PDF body.'',
                  SetItemFailed TEMPLATES,
                  Console ''Critical: Cannot save template metadata'']\<rparr>))"
  using assms
  by (simp add: uploadTemplate_def setItem_templates_def console_def Let_def)

lemma uploadTemplate_get_fails:
  assumes "getTemplates e (delay 500 w) = (Inl err, w2)"
  shows "uploadTemplate e now isoNow t w = (Inl err, w2)"
  using assms by (simp add: uploadTemplate_def Let_def)

lemma getTemplates_Inr:
  assumes "getTemplates e w = (Inr current, w2)"
  shows "current = stored_templates e w \<and> stored_templates e w2 = stored_templates e w
         \<and> templates_item (store w2) = Some current
         \<and> contracts_item (store w2) = contracts_item (store w)"
  using assms
  by (auto simp add: getTemplates_eq stored_templates_def split: option.splits if_splits)

lemma getTemplates_Inl:
  assumes "getTemplates e w = (Inl err, w2)"
  shows "store w2 = store w"
  using assms
  by (auto simp add: getTemplates_eq split: option.splits if_splits)


subsection \<open>Decimal printing is injective\<close>

lemma unat_digit_char: "d < 10 \<Longrightarrow> unat (digit_char d) = 48 + d"
proof -
  assume d: "d < 10"
  have "unat (of_nat (48 + d) :: jschar) = (48 + d) mod 2 ^ 16"
    by (simp only: unat_of_nat) simp
  with d show ?thesis
    unfolding digit_char_def by simp
qed

lemma digit_value_snoc: "digit_value (s @ [c]) = 10 * digit_value s + (unat c - 48)"
  by (simp add: digit_value_def)

lemma digit_value_decimal: "digit_value (decimal n) = n"
proof (induction n rule: decimal.induct)
  case (1 n)
  show ?case
  proof (cases "n < 10")
    case True
    then show ?thesis
      by (subst decimal.simps) (simp add: digit_value_def unat_digit_char)
  next
    case False
    then have "digit_value (decimal (n div 10)) = n div 10"
      using 1 by simp
    with False show ?thesis
      by (subst decimal.simps) (simp add: digit_value_snoc unat_digit_char)
  qed
qed

lemma decimal_inj: "decimal a = decimal b \<Longrightarrow> a = b"
  by (metis digit_value_decimal)

lemma decimal_digits: "c \<in> set (decimal n) \<Longrightarrow> unat c \<ge> 48 \<and> unat c \<le> 57"
proof (induction n rule: decimal.induct)
  case (1 n)
  show ?case
  proof (cases "n < 10")
    case True
    with 1(2) show ?thesis
      by (subst (asm) decimal.simps) (simp add: unat_digit_char)
  next
    case False
    with 1(2) have "c \<in> set (decimal (n div 10)) \<or> c = digit_char (n mod 10)"
      by (subst (asm) decimal.simps) auto
    then show ?thesis
      using 1(1) False by (auto simp add: unat_digit_char)
  qed
qed

lemma decimal_not_Nil: "decimal n \<noteq> []"
  by (subst decimal.simps) simp

lemma decimal_no_minus: "decimal n \<noteq> 45 # s"
proof
  assume "decimal n = 45 # s"
  then have "(45 :: jschar) \<in> set (decimal n)" by simp
  from decimal_digits [OF this] show False by simp
qed

lemma number_toString_inj: "number_toString a = number_toString b \<Longrightarrow> a = b"
  using decimal_no_minus decimal_no_minus [symmetric]
  by (auto simp add: number_toString_def js_def split: if_splits dest!: decimal_inj)

lemma js_append_cancel [simp]: "js p @ x = js p @ y \<longleftrightarrow> x = y"
  by simp

lemma decimal_three_digits: "decimal n = [a, b, c] \<Longrightarrow> a \<noteq> 48"
proof
  assume d: "decimal n = [a, b, c]" and a: "a = 48"
  have "n = digit_value [a, b, c]" using digit_value_decimal [of n] d by simp
  moreover have "unat b \<le> 57" "unat c \<le> 57"
    using decimal_digits [of b n] decimal_digits [of c n] d by simp_all
  ultimately have "n < 100" using a
    by (simp add: digit_value_def)
  then have "length (decimal n) \<le> 2"
    by (subst decimal.simps, subst decimal.simps) simp
  with d show False by simp
qed

lemma number_toString_no_leading_zero: "number_toString n \<noteq> [48, b, c]"
  using decimal_three_digits decimal_no_minus
  by (auto simp add: number_toString_def js_def)

lemma default_ids: "map t_id (DEFAULT_TEMPLATES e) = [js ''tpl_001'', js ''tpl_002'', js ''tpl_003'']"
  by (simp add: DEFAULT_TEMPLATES_def)

lemma new_id_not_default: "js ''tpl_'' @ number_toString n \<notin> set (map t_id (DEFAULT_TEMPLATES e))"
  using number_toString_no_leading_zero [of n]
  by (auto simp add: default_ids js_def)

subsection \<open>Identifiers (claim C2)\<close>

lemma uploadTemplate_ids:
  "(map t_id (stored_templates e (snd (uploadTemplate e now isoNow t w)))
       = map t_id (stored_templates e w)
    \<or> map t_id (stored_templates e (snd (uploadTemplate e now isoNow t w)))
       = (js ''tpl_'' @ number_toString now) # map t_id (stored_templates e w))
   \<and> stored_contracts (snd (uploadTemplate e now isoNow t w)) = stored_contracts w"
proof (cases "getTemplates e (delay 500 w)")
  case (Pair r w2)
  show ?thesis
  proof (cases r)
    case (Inl err)
    with Pair have g: "getTemplates e (delay 500 w) = (Inl err, w2)" by simp
    from getTemplates_Inl [OF g] show ?thesis
      by (simp add: uploadTemplate_get_fails [OF g] stored_templates_def stored_contracts_def)
  next
    case (Inr current)
    with Pair have g: "getTemplates e (delay 500 w) = (Inr current, w2)" by simp
    from getTemplates_Inr [OF g] show ?thesis
      by (simp add: uploadTemplate_after_get [OF g] stored_templates_def stored_contracts_def
            newTemplate_def)
  qed
qed

lemma saveSignedContract_ids:
  "(map c_id (stored_contracts (snd (saveSignedContract e remote now c w)))
       = map c_id (stored_contracts w)
    \<or> map c_id (stored_contracts (snd (saveSignedContract e remote now c w)))
       = (js ''cnt_'' @ number_toString now) # map c_id (stored_contracts w))
   \<and> stored_templates e (snd (saveSignedContract e remote now c w)) = stored_templates e w"
  by (simp add: saveSignedContract_eq stored_contracts_def stored_templates_def newContract_def)

lemma run_calls_ids_distinct:
  assumes "distinct (map t_id (stored_templates e w))"
      and "distinct (map c_id (stored_contracts w))"
      and "distinct (template_clock calls)"
      and "distinct (contract_clock calls)"
      and "\<forall>n \<in> set (template_clock calls).
             js ''tpl_'' @ number_toString n \<notin> set (map t_id (stored_templates e w))"
      and "\<forall>n \<in> set (contract_clock calls).
             js ''cnt_'' @ number_toString n \<notin> set (map c_id (stored_contracts w))"
  shows "distinct (map t_id (stored_templates e (run_calls e calls w)))
       \<and> distinct (map c_id (stored_contracts (run_calls e calls w)))"
  using assms
proof (induction calls arbitrary: w)
  case Nil
  then show ?case by simp
next
  case (Cons call calls)
  show ?case
  proof (cases call)
    case (AddTemplate now isoNow t)
    let ?w' = "snd (uploadTemplate e now isoNow t w)"
    have fresh_now: "now \<notin> set (template_clock calls)"
      using Cons.prems(3) AddTemplate by simp
    have step: "map t_id (stored_templates e ?w') = map t_id (stored_templates e w)
       \<or> map t_id (stored_templates e ?w') = (js ''tpl_'' @ number_toString now) # map t_id (stored_templates e w)"
      and same: "stored_contracts ?w' = stored_contracts w"
      using uploadTemplate_ids [of e now isoNow t w] by simp_all
    have 1: "distinct (map t_id (stored_templates e ?w'))"
      using step Cons.prems(1,5) AddTemplate by (auto simp del: set_map)
    have 5: "\<forall>n \<in> set (template_clock calls).
             js ''tpl_'' @ number_toString n \<notin> set (map t_id (stored_templates e ?w'))"
    proof
      fix n assume n: "n \<in> set (template_clock calls)"
      then have "n \<noteq> now" using fresh_now by auto
      then have "number_toString n \<noteq> number_toString now"
        using number_toString_inj by blast
      moreover have "js ''tpl_'' @ number_toString n \<notin> set (map t_id (stored_templates e w))"
        using Cons.prems(5) n AddTemplate by (simp del: set_map)
      ultimately show "js ''tpl_'' @ number_toString n \<notin> set (map t_id (stored_templates e ?w'))"
        using step by (auto simp del: set_map)
    qed
    have "distinct (map t_id (stored_templates e (run_calls e calls ?w')))
       \<and> distinct (map c_id (stored_contracts (run_calls e calls ?w')))"
      using Cons.IH [of ?w'] 1 5 same Cons.prems(2,3,4,6) AddTemplate by (simp del: set_map)
    then show ?thesis using AddTemplate by simp
  next
    case (AddContract remote now c)
    let ?w' = "snd (saveSignedContract e remote now c w)"
    have fresh_now: "now \<notin> set (contract_clock calls)"
      using Cons.prems(4) AddContract by simp
    have step: "map c_id (stored_contracts ?w') = map c_id (stored_contracts w)
       \<or> map c_id (stored_contracts ?w') = (js ''cnt_'' @ number_toString now) # map c_id (stored_contracts w)"
      and same: "stored_templates e ?w' = stored_templates e w"
      using saveSignedContract_ids [of e remote now c w] by simp_all
    have 2: "distinct (map c_id (stored_contracts ?w'))"
      using step Cons.prems(2,6) AddContract by (auto simp del: set_map)
    have 6: "\<forall>n \<in> set (contract_clock calls).
             js ''cnt_'' @ number_toString n \<notin> set (map c_id (stored_contracts ?w'))"
    proof
      fix n assume n: "n \<in> set (contract_clock calls)"
      then have "n \<noteq> now" using fresh_now by auto
      then have "number_toString n \<noteq> number_toString now"
        using number_toString_inj by blast
      moreover have "js ''cnt_'' @ number_toString n \<notin> set (map c_id (stored_contracts w))"
        using Cons.prems(6) n AddContract by (simp del: set_map)
      ultimately show "js ''cnt_'' @ number_toString n \<notin> set (map c_id (stored_contracts ?w'))"
        using step by (auto simp del: set_map)
    qed
    have "distinct (map t_id (stored_templates e (run_calls e calls ?w')))
       \<and> distinct (map c_id (stored_contracts (run_calls e calls ?w')))"
      using Cons.IH [of ?w'] 2 6 same Cons.prems(1,3,4,5) AddContract by (simp del: set_map)
    then show ?thesis using AddContract by simp
  qed
qed

text \<open>
  Claim C2, as stated: every add gives the new record an identifier different from those
  already in its collection. The identifier is \<^verbatim>\<open>tpl_\<close> or \<^verbatim>\<open>cnt_\<close> followed by the clock
  reading and nothing checks it against the collection: two contracts saved at the same
  reading carry the same identifier.
\<close>

theorem same_clock_reading_repeats_id:
  "\<not> distinct (map c_id (stored_contracts (run_calls roomy_env
       [AddContract Unreachable 1714726800000 sample_contract,
        AddContract Unreachable 1714726800000 sample_contract] fresh)))"
  by (simp add: saveSignedContract_eq stored_contracts_def roomy_env_def fresh_def newContract_def)

text \<open>
  Claim C2, amended: starting from an empty storage (the three sample templates are seeded
  on first access), after any sequence of \<open>uploadTemplate\<close> and \<open>saveSignedContract\<close> calls
  whose clock readings are pairwise different within each kind of call, the identifiers of
  the stored templates are pairwise different and so are those of the stored contracts.
\<close>

theorem ids_unique_for_distinct_clock_readings:
  assumes "distinct (template_clock calls)" and "distinct (contract_clock calls)"
  shows "distinct (map t_id (stored_templates e (run_calls e calls fresh)))
       \<and> distinct (map c_id (stored_contracts (run_calls e calls fresh)))"
proof (rule run_calls_ids_distinct [OF _ _ assms])
  show "distinct (map t_id (stored_templates e fresh))"
    by (simp add: stored_templates_def fresh_def default_ids js_def)
  show "distinct (map c_id (stored_contracts fresh))"
    by (simp add: stored_contracts_def fresh_def)
  show "\<forall>n \<in> set (template_clock calls).
             js ''tpl_'' @ number_toString n \<notin> set (map t_id (stored_templates e fresh))"
    using new_id_not_default by (simp add: stored_templates_def fresh_def)
  show "\<forall>n \<in> set (contract_clock calls).
             js ''cnt_'' @ number_toString n \<notin> set (map c_id (stored_contracts fresh))"
    by (simp add: stored_contracts_def fresh_def)
qed

theorem ids_unique_for_distinct_clock_readings_witness:
  "distinct (map t_id (stored_templates roomy_env (run_calls roomy_env
       [AddContract Unreachable 1714726800000 sample_contract,
        AddTemplate 1714726800000 (js ''2024-05-03T09:00:00.000Z'') sample_template,
        AddContract ResponseOk 1714726800001 sample_contract] fresh)))
   \<and> distinct (map c_id (stored_contracts (run_calls roomy_env
       [AddContract Unreachable 1714726800000 sample_contract,
        AddTemplate 1714726800000 (js ''2024-05-03T09:00:00.000Z'') sample_template,
        AddContract ResponseOk 1714726800001 sample_contract] fresh)))"
  using ids_unique_for_distinct_clock_readings [where e = roomy_env and calls =
       "[AddContract Unreachable 1714726800000 sample_contract,
        AddTemplate 1714726800000 (js ''2024-05-03T09:00:00.000Z'') sample_template,
        AddContract ResponseOk 1714726800001 sample_contract]"]
  by simp

subsection \<open>Saving a contract (claims C4, C5)\<close>

text \<open>
  Claim C4: when the write fits the quota, \<open>saveSignedContract\<close> returns the new record,
  which is the draft with the identifier \<^verbatim>\<open>cnt_<clock reading>\<close> and status \<open>SENT\<close>; the record
  is in the storage when the call returns, and reading the contracts back gives the new
  record first, followed by the contracts that were there.
\<close>

theorem saveSignedContract_persists_first: 
  assumes "quota e ((store w)\<lparr>contracts_item := Some (newContract now d # fst (getSignedContracts w))\<rparr>)"
  shows "fst (saveSignedContract e remote now d w) = Inr (newContract now d)
     \<and> fst (getSignedContracts (snd (saveSignedContract e remote now d w)))
          = newContract now d # fst (getSignedContracts w)
     \<and> newContract now d = \<lparr>c_id = js ''cnt_'' @ number_toString now,
          templateId = d_templateId d, templateName = d_templateName d,
          signerName = d_signerName d, signerPhone = d_signerPhone d,
          signerEmail = d_signerEmail d, signedAt = d_signedAt d,
          pdfDataUrl = d_pdfDataUrl d, status = SENT\<rparr>"
  using assms
  by (simp add: saveSignedContract_eq getSignedContracts_eq stored_contracts_def newContract_def)

theorem saveSignedContract_persists_first_witness:
  "fst (saveSignedContract roomy_env Unreachable 1714726800000 sample_contract fresh)
     = Inr (newContract 1714726800000 sample_contract)
   \<and> fst (getSignedContracts (snd (saveSignedContract roomy_env Unreachable 1714726800000 sample_contract fresh)))
     = [newContract 1714726800000 sample_contract]"
  using saveSignedContract_persists_first [where e=roomy_env and w=fresh and now=1714726800000 and d=sample_contract and remote=Unreachable]
  by (simp add: roomy_env_def fresh_def getSignedContracts_eq stored_contracts_def)

text \<open>
  Claim C5: whatever the remote server answers (success, an error response whose body can
  or cannot be read, no connection), the value returned and the storage left behind are
  the same and depend on the local write alone; the \<^verbatim>\<open>fetch\<close> comes after the
  completed \<^verbatim>\<open>setItem\<close> in the trace of effects, and is not attempted when the local write
  failed.
\<close>

theorem saveSignedContract_local_before_remote:
  "fst (saveSignedContract e remote now d w) =
     (if quota e ((store w)\<lparr>contracts_item := Some (newContract now d # fst (getSignedContracts w))\<rparr>)
      then Inr (newContract now d) else Inl QuotaExceededError)
   \<and> store (snd (saveSignedContract e remote now d w)) =
     (if quota e ((store w)\<lparr>contracts_item := Some (newContract now d # fst (getSignedContracts w))\<rparr>)
      then (store w)\<lparr>contracts_item := Some (newContract now d # fst (getSignedContracts w))\<rparr>
      else store w)
   \<and> (\<exists>m. trace (snd (saveSignedContract e remote now d w)) =
     (if quota e ((store w)\<lparr>contracts_item := Some (newContract now d # fst (getSignedContracts w))\<rparr>)
      then trace w @ [Delay 300, SetItem CONTRACTS, Console ''Attemping to send to backend server...'',
                      Fetch (newContract now d), Console m]
      else trace w @ [Delay 300, SetItemFailed CONTRACTS]))"
  by (cases remote rule: fetch_outcome.exhaust; simp add: saveSignedContract_eq getSignedContracts_eq forward_def Let_def split: option.splits)

subsection \<open>Uploading a template (claims C6, C10)\<close>

text \<open>
  Claim C6: when the first write of \<open>uploadTemplate\<close> fails, the write is tried again with
  \<open>basePdfUrl\<close> removed from the new record and every other field kept; if that write
  succeeds the template is stored in that form and the call returns, and if it fails too
  the call fails with the storage error and the storage is as it was.
\<close>

theorem uploadTemplate_quota_fallback:
  assumes "getTemplates e (delay 500 w) = (Inr current, w2)"
      and "\<not> quota e ((store w2)\<lparr>templates_item := Some (newTemplate now isoNow t # current)\<rparr>)"
  shows "(let fallback = (newTemplate now isoNow t)\<lparr>basePdfUrl := None\<rparr>;
              r = uploadTemplate e now isoNow t w
          in (if quota e ((store w2)\<lparr>templates_item := Some (fallback # current)\<rparr>)
              then fst r = Inr (newTemplate now isoNow t)
                 \<and> templates_item (store (snd r)) = Some (fallback # current)
              else fst r = Inl QuotaExceededError \<and> store (snd r) = store w2)
           \<and> basePdfUrl fallback = None
           \<and> t_id fallback = t_id (newTemplate now isoNow t)
           \<and> t_name fallback = d_name t
           \<and> t_type fallback = d_type t
           \<and> createdAt fallback = isoNow
           \<and> fileSize fallback = fileSize (newTemplate now isoNow t)
           \<and> pageCount fallback = pageCount (newTemplate now isoNow t))"
  using assms
  by (simp add: uploadTemplate_after_get Let_def newTemplate_def)

theorem uploadTemplate_quota_fallback_witness:
  "fst (uploadTemplate metadata_only_env 1714726800000 (js ''2024-05-03T09:00:00.000Z'') sample_template fresh)
     = Inr (newTemplate 1714726800000 (js ''2024-05-03T09:00:00.000Z'') sample_template)
   \<and> templates_item (store (snd (uploadTemplate metadata_only_env 1714726800000 (js ''2024-05-03T09:00:00.000Z'') sample_template fresh)))
     = Some ((newTemplate 1714726800000 (js ''2024-05-03T09:00:00.000Z'') sample_template)\<lparr>basePdfUrl := None\<rparr>
             # DEFAULT_TEMPLATES metadata_only_env)
   \<and> fst (uploadTemplate full_env 1714726800000 (js ''2024-05-03T09:00:00.000Z'') sample_template
            (fresh\<lparr>store := \<lparr>templates_item = Some [], contracts_item = None\<rparr>\<rparr>))
     = Inl QuotaExceededError"
proof -
  let ?w2 = "snd (getTemplates metadata_only_env (delay 500 fresh))"
  have g: "getTemplates metadata_only_env (delay 500 fresh)
             = (Inr (DEFAULT_TEMPLATES metadata_only_env), ?w2)"
    by (simp add: getTemplates_eq fresh_def metadata_only_env_def DEFAULT_TEMPLATES_def)
  have s: "store ?w2 = \<lparr>templates_item = Some (DEFAULT_TEMPLATES metadata_only_env), contracts_item = None\<rparr>"
    by (simp add: getTemplates_eq fresh_def metadata_only_env_def DEFAULT_TEMPLATES_def)
  have nq: "\<not> quota metadata_only_env ((store ?w2)\<lparr>templates_item :=
       Some (newTemplate 1714726800000 (js ''2024-05-03T09:00:00.000Z'') sample_template
             # DEFAULT_TEMPLATES metadata_only_env)\<rparr>)"
    unfolding s by (simp add: metadata_only_env_def newTemplate_def sample_template_def)
  have q: "quota metadata_only_env ((store ?w2)\<lparr>templates_item :=
       Some ((newTemplate 1714726800000 (js ''2024-05-03T09:00:00.000Z'') sample_template)\<lparr>basePdfUrl := None\<rparr>
             # DEFAULT_TEMPLATES metadata_only_env)\<rparr>)"
    unfolding s by (simp add: metadata_only_env_def newTemplate_def DEFAULT_TEMPLATES_def)
  let ?v = "fresh\<lparr>store := \<lparr>templates_item = Some [], contracts_item = None\<rparr>\<rparr>"
  let ?v2 = "snd (getTemplates full_env (delay 500 ?v))"
  have g': "getTemplates full_env (delay 500 ?v) = (Inr [], ?v2)"
    by (simp add: getTemplates_eq)
  have nq': "\<And>x. \<not> quota full_env x"
    by (simp add: full_env_def)
  show ?thesis
    using uploadTemplate_quota_fallback [OF g nq] uploadTemplate_quota_fallback [OF g' nq'] q nq'
    by (simp add: Let_def)
qed

text \<open>
  Claim C10: on the normal path the record stored first in the collection is the record
  returned; on the fallback path (first write fails, second succeeds) the record returned
  still has the \<open>basePdfUrl\<close> of the draft, which is present, while the record stored is
  the returned one with \<open>basePdfUrl\<close> removed, so the two differ in that field only.
\<close>

theorem uploadTemplate_returned_vs_stored:
  assumes "getTemplates e (delay 500 w) = (Inr current, w2)"
  shows "(let new = newTemplate now isoNow t;
              r = uploadTemplate e now isoNow t w
          in (quota e ((store w2)\<lparr>templates_item := Some (new # current)\<rparr>)
               \<longrightarrow> fst r = Inr new \<and> templates_item (store (snd r)) = Some (new # current))
           \<and> (\<not> quota e ((store w2)\<lparr>templates_item := Some (new # current)\<rparr>)
               \<and> quota e ((store w2)\<lparr>templates_item := Some (new\<lparr>basePdfUrl := None\<rparr> # current)\<rparr>)
               \<longrightarrow> fst r = Inr new
                 \<and> templates_item (store (snd r)) = Some (new\<lparr>basePdfUrl := None\<rparr> # current)
                 \<and> basePdfUrl new = d_basePdfUrl t
                 \<and> d_basePdfUrl t \<noteq> None
                 \<and> new \<noteq> new\<lparr>basePdfUrl := None\<rparr>))"
proof -
  let ?new = "newTemplate now isoNow t"
  have same: "d_basePdfUrl t = None \<Longrightarrow> ?new\<lparr>basePdfUrl := None\<rparr> = ?new"
    by (simp add: newTemplate_def)
  have differ: "d_basePdfUrl t \<noteq> None \<Longrightarrow> ?new \<noteq> ?new\<lparr>basePdfUrl := None\<rparr>"
    by (auto simp add: newTemplate_def)
  have url: "basePdfUrl ?new = d_basePdfUrl t"
    by (simp add: newTemplate_def)
  show ?thesis
  proof (cases "d_basePdfUrl t = None")
    case True
    then show ?thesis
      unfolding Let_def uploadTemplate_after_get [OF assms] same [OF True] by simp
  next
    case False
    then show ?thesis
      unfolding Let_def uploadTemplate_after_get [OF assms]
      using differ [OF False] url by simp
  qed
qed

theorem uploadTemplate_returned_vs_stored_witness:
  "fst (uploadTemplate roomy_env 1714726800000 (js ''2024-05-03T09:00:00.000Z'') sample_template fresh)
     = Inr (newTemplate 1714726800000 (js ''2024-05-03T09:00:00.000Z'') sample_template)
   \<and> templates_item (store (snd (uploadTemplate roomy_env 1714726800000 (js ''2024-05-03T09:00:00.000Z'') sample_template fresh)))
     = Some (newTemplate 1714726800000 (js ''2024-05-03T09:00:00.000Z'') sample_template
             # DEFAULT_TEMPLATES roomy_env)
   \<and> fst (uploadTemplate metadata_only_env 1714726800000 (js ''2024-05-03T09:00:00.000Z'') sample_template fresh)
     = Inr (newTemplate 1714726800000 (js ''2024-05-03T09:00:00.000Z'') sample_template)
   \<and> templates_item (store (snd (uploadTemplate metadata_only_env 1714726800000 (js ''2024-05-03T09:00:00.000Z'') sample_template fresh)))
     = Some ((newTemplate 1714726800000 (js ''2024-05-03T09:00:00.000Z'') sample_template)\<lparr>basePdfUrl := None\<rparr>
             # DEFAULT_TEMPLATES metadata_only_env)
   \<and> basePdfUrl (newTemplate 1714726800000 (js ''2024-05-03T09:00:00.000Z'') sample_template) \<noteq> None"
proof -
  let ?w2 = "snd (getTemplates metadata_only_env (delay 500 fresh))"
  have g: "getTemplates metadata_only_env (delay 500 fresh)
             = (Inr (DEFAULT_TEMPLATES metadata_only_env), ?w2)"
    by (simp add: getTemplates_eq fresh_def metadata_only_env_def DEFAULT_TEMPLATES_def)
  have s: "store ?w2 = \<lparr>templates_item = Some (DEFAULT_TEMPLATES metadata_only_env), contracts_item = None\<rparr>"
    by (simp add: getTemplates_eq fresh_def metadata_only_env_def DEFAULT_TEMPLATES_def)
  have nq: "\<not> quota metadata_only_env ((store ?w2)\<lparr>templates_item :=
       Some (newTemplate 1714726800000 (js ''2024-05-03T09:00:00.000Z'') sample_template
             # DEFAULT_TEMPLATES metadata_only_env)\<rparr>)"
    unfolding s by (simp add: metadata_only_env_def newTemplate_def sample_template_def)
  have q: "quota metadata_only_env ((store ?w2)\<lparr>templates_item :=
       Some ((newTemplate 1714726800000 (js ''2024-05-03T09:00:00.000Z'') sample_template)\<lparr>basePdfUrl := None\<rparr>
             # DEFAULT_TEMPLATES metadata_only_env)\<rparr>)"
    unfolding s by (simp add: metadata_only_env_def newTemplate_def DEFAULT_TEMPLATES_def)
  let ?r2 = "snd (getTemplates roomy_env (delay 500 fresh))"
  have g': "getTemplates roomy_env (delay 500 fresh) = (Inr (DEFAULT_TEMPLATES roomy_env), ?r2)"
    by (simp add: getTemplates_eq fresh_def roomy_env_def)
  have q': "\<And>x. quota roomy_env x"
    by (simp add: roomy_env_def)
  have u: "basePdfUrl (newTemplate 1714726800000 (js ''2024-05-03T09:00:00.000Z'') sample_template) \<noteq> None"
    by (simp add: newTemplate_def sample_template_def)
  show ?thesis
    using uploadTemplate_returned_vs_stored [OF g', where now = 1714726800000 and isoNow = "js ''2024-05-03T09:00:00.000Z''" and t = sample_template]
          uploadTemplate_returned_vs_stored [OF g, where now = 1714726800000 and isoNow = "js ''2024-05-03T09:00:00.000Z''" and t = sample_template]
          q nq q' u
    by (simp add: Let_def)
qed

subsection \<open>Searching (claim C7)\<close>





subsection \<open>Exports (claim C9)\<close>

lemma add_to_zip_foldl:
  "foldl add_to_zip (files, n) cs
     = (files @ map zip_file (filter has_payload cs), n + length (filter has_payload cs))"
  by (induction cs arbitrary: files n)
     (simp_all add: add_to_zip_def has_payload_def zip_file_def Let_def split: option.splits)

text \<open>
  Claim C9: \<open>handleExportCSV\<close> on no contracts only shows the "no contract data to export"
  alert and downloads nothing; the loop of \<open>handleDownloadZip\<close> adds one file for each
  contract that has a document payload, in order, skips the others and counts the files
  added; and when the folder was created and no contract has a payload, the handler only
  shows the "no PDF data to download" alert (between setting and clearing the busy marker)
  and downloads nothing.
\<close>

theorem exports_report_nothing_to_export:
  "handleExportCSV dt [] = [Alert no_contracts_message]
   \<and> foldl add_to_zip ([], 0) cs
       = (map zip_file (filter has_payload cs), length (filter has_payload cs))
   \<and> (folder jz (js ''Contracts_'' @ groupKey) \<longrightarrow> (\<forall>c \<in> set cs. \<not> has_payload c) \<longrightarrow>
        handleDownloadZip jz groupKey cs
          = [SetIsZipping (Some groupKey), Alert no_pdf_message, SetIsZipping None])"
proof -
  have "(\<forall>c \<in> set cs. \<not> has_payload c) \<Longrightarrow> filter has_payload cs = []"
    by (simp add: filter_empty_conv)
  then show ?thesis
    using add_to_zip_foldl [of "[]" 0 cs]
    by (simp add: handleExportCSV_def handleDownloadZip_def Let_def)
qed

theorem exports_report_nothing_to_export_witness:
  "handleDownloadZip sample_zip (js ''2024-05'')
      [(newContract 1714726800000 sample_contract)\<lparr>pdfDataUrl := []\<rparr>,
       (newContract 1714726800001 sample_contract)\<lparr>pdfDataUrl := js ''data:application/pdf;base64,''\<rparr>]
     = [SetIsZipping (Some (js ''2024-05'')), Alert no_pdf_message, SetIsZipping None]"
proof -
  have f: "folder sample_zip (js ''Contracts_'' @ js ''2024-05'')"
    by (simp add: sample_zip_def)
  have n: "\<forall>c \<in> set [(newContract 1714726800000 sample_contract)\<lparr>pdfDataUrl := []\<rparr>,
       (newContract 1714726800001 sample_contract)\<lparr>pdfDataUrl := js ''data:application/pdf;base64,''\<rparr>].
         \<not> has_payload c"
    by (simp add: has_payload_def split_comma_1_def js_def)
  from exports_report_nothing_to_export [where jz = sample_zip and groupKey = "js ''2024-05''" and cs = "[(newContract 1714726800000 sample_contract)\<lparr>pdfDataUrl := []\<rparr>,
       (newContract 1714726800001 sample_contract)\<lparr>pdfDataUrl := js ''data:application/pdf;base64,''\<rparr>]"] f n
  show ?thesis by blast
qed

subsection \<open>Document synthesis (claims C1, C3)\<close>

lemma sanitizeForPdf_ascii:
  "list_all (\<lambda>c. c \<le> 0x7F) fallback \<Longrightarrow> list_all (\<lambda>c. c \<le> 0x7F) (sanitizeForPdf text fallback)"
  by (simp add: sanitizeForPdf_def Let_def)

lemma sanitizeForPdf_replaces:
  "c \<in> set text \<Longrightarrow> \<not> c \<le> 0x7F \<Longrightarrow> sanitizeForPdf text fallback = fallback"
  by (auto simp add: sanitizeForPdf_def Let_def list_all_iff)

lemma bodyText_fields:
  "set (phone signer) \<union> set (email signer) \<union> set (dob signer) \<union> set n \<union> set a
     \<subseteq> set (bodyText n signer a)"
  by (auto simp add: bodyText_def)

lemma renderContract_body_fails:
  assumes "\<not> list_all (canEncode lib)
             (bodyText (sanitizeForPdf (s_name signer) (js ''Member'')) signer
                (sanitizeForPdf (address signer) (js ''[Address on File]'')))"
  shows "\<exists>err. renderContract lib template signer sig = Inl err"
  using assms
  by (simp add: renderContract_def drawText_def Let_def)

lemma renderContract_no_signature:
  "renderContract lib template signer [] = Inr page \<Longrightarrow>
     list_all (canEncode lib) (sanitizeForPdf (s_name signer) (js ''Member''))
     \<and> renderContract lib template signer sig
         = (if sig \<noteq> [] then drawSignature lib page (sanitizeForPdf (s_name signer) (js ''Member'')) sig
            else Inr page)"
proof -
  assume r: "renderContract lib template signer [] = Inr page"
  let ?n = "sanitizeForPdf (s_name signer) (js ''Member'')"
  let ?a = "sanitizeForPdf (address signer) (js ''[Address on File]'')"
  from r have b: "list_all (canEncode lib) (bodyText ?n signer ?a)"
    by (simp add: renderContract_def drawText_def Let_def split: if_splits)
  have "set ?n \<subseteq> set (bodyText ?n signer ?a)"
    using bodyText_fields [of signer ?n ?a] by blast
  with b have n: "list_all (canEncode lib) ?n"
    by (auto simp add: list_all_iff)
  from r have "renderContract lib template signer sig
         = (if sig \<noteq> [] then drawSignature lib page ?n sig else Inr page)"
    by (simp add: renderContract_def drawText_def Let_def split: if_splits)
  with n show ?thesis by simp
qed

text \<open>
  Claim C1 says that every field drawn is sanitized first, so that a character outside the
  font's repertoire never makes synthesis throw. The title, the signer name and the address
  go through \<open>sanitizeForPdf\<close> (lemma \<open>sanitizeForPdf_replaces\<close>), but phone, email and date of
  birth are put into the body text as they are: a character the font cannot encode in one
  of them makes \<open>generateContractPDF\<close> throw.
\<close>

theorem unsanitized_field_aborts_synthesis:
  assumes "c \<in> set (phone signer) \<union> set (email signer) \<union> set (dob signer)"
      and "\<not> canEncode lib c"
  shows "\<exists>err. generateContractPDF lib template signer sig = Inl err"
proof -
  have "c \<in> set (bodyText (sanitizeForPdf (s_name signer) (js ''Member'')) signer
                (sanitizeForPdf (address signer) (js ''[Address on File]'')))"
    using assms(1) bodyText_fields by blast
  with assms(2) have "\<not> list_all (canEncode lib)
             (bodyText (sanitizeForPdf (s_name signer) (js ''Member'')) signer
                (sanitizeForPdf (address signer) (js ''[Address on File]'')))"
    by (auto simp add: list_all_iff)
  from renderContract_body_fails [OF this, of template sig]
  show ?thesis
    by (auto simp add: generateContractPDF_def)
qed

theorem unsanitized_field_aborts_synthesis_witness:
  "\<exists>err. generateContractPDF strict_pdflib korean_template
            (sample_signer\<lparr>phone := js ''010-1234-5678 '' @ [0xC9D1]\<rparr>)
            (js ''data:image/png;base64,AAAA'') = Inl err"
proof -
  have 1: "0xC9D1 \<in> set (phone (sample_signer\<lparr>phone := js ''010-1234-5678 '' @ [0xC9D1]\<rparr>))
            \<union> set (email (sample_signer\<lparr>phone := js ''010-1234-5678 '' @ [0xC9D1]\<rparr>))
            \<union> set (dob (sample_signer\<lparr>phone := js ''010-1234-5678 '' @ [0xC9D1]\<rparr>))"
    by simp
  have 2: "\<not> canEncode strict_pdflib 0xC9D1"
    by (simp add: strict_pdflib_def)
  from unsanitized_field_aborts_synthesis [OF 1 2] show ?thesis .
qed

text \<open>
  \<open>arrayBufferToBase64\<close> loses nothing: reading its output back gives the bytes.
\<close>

lemma base64_digits_all:
  "list_all (\<lambda>i. base64_index (base64_digit i) = i \<and> base64_digit i \<noteq> 0x3D) [0..<64]"
  by (simp add: upt_rec base64_digit_def base64_index_def js_def)

lemma base64_index_digit:
  assumes "i < 64"
  shows "base64_index (base64_digit i) = i" and "base64_digit i \<noteq> 0x3D"
proof -
  have "i \<in> set [0..<64]" using assms by simp
  with base64_digits_all show "base64_index (base64_digit i) = i" and "base64_digit i \<noteq> 0x3D"
    unfolding list_all_iff by blast+
qed

lemma byte_bound: "unat (a :: 8 word) < 256"
  using unsigned_less [of a, where 'a = nat] by simp

lemma byte_of_unat: "(of_nat (unat (a :: 8 word)) :: 8 word) = a"
  by simp

lemma octet1_sextets:
  fixes a b :: "8 word"
  shows "octet1 (unat a div 4) (unat a mod 4 * 16 + unat b div 16) = a"
proof -
  have "unat b div 16 < 16" using byte_bound [of b] by simp
  then have "(unat a mod 4 * 16 + unat b div 16) div 16 = unat a mod 4" by simp
  then have "unat a div 4 * 4 + (unat a mod 4 * 16 + unat b div 16) div 16 = unat a" by simp
  then show ?thesis unfolding octet1_def by (simp only: byte_of_unat)
qed

lemma octet1_sextets_last:
  fixes a :: "8 word"
  shows "octet1 (unat a div 4) (unat a mod 4 * 16) = a"
proof -
  have "unat a div 4 * 4 + (unat a mod 4 * 16) div 16 = unat a" by simp
  then show ?thesis unfolding octet1_def by (simp only: byte_of_unat)
qed

lemma octet2_sextets:
  fixes a b c :: "8 word"
  shows "octet2 (unat a mod 4 * 16 + unat b div 16) (unat b mod 16 * 4 + unat c div 64) = b"
proof -
  have "unat b div 16 < 16" using byte_bound [of b] by simp
  then have 1: "(unat a mod 4 * 16 + unat b div 16) mod 16 = unat b div 16" by simp
  have "unat c div 64 < 4" using byte_bound [of c] by simp
  then have 2: "(unat b mod 16 * 4 + unat c div 64) div 4 = unat b mod 16" by simp
  have "unat b div 16 * 16 + unat b mod 16 = unat b" by simp
  then show ?thesis unfolding octet2_def 1 2 by (simp only: byte_of_unat)
qed

lemma octet2_sextets_last:
  fixes a b :: "8 word"
  shows "octet2 (unat a mod 4 * 16 + unat b div 16) (unat b mod 16 * 4) = b"
proof -
  have "unat b div 16 < 16" using byte_bound [of b] by simp
  then have 1: "(unat a mod 4 * 16 + unat b div 16) mod 16 = unat b div 16" by simp
  have 2: "(unat b mod 16 * 4) div 4 = unat b mod 16" by simp
  have "unat b div 16 * 16 + unat b mod 16 = unat b" by simp
  then show ?thesis unfolding octet2_def 1 2 by (simp only: byte_of_unat)
qed

lemma octet3_sextets:
  fixes b c :: "8 word"
  shows "octet3 (unat b mod 16 * 4 + unat c div 64) (unat c mod 64) = c"
proof -
  have "unat c div 64 < 4" using byte_bound [of c] by simp
  then have 1: "(unat b mod 16 * 4 + unat c div 64) mod 4 = unat c div 64" by simp
  have "unat c div 64 * 64 + unat c mod 64 = unat c" by simp
  then show ?thesis unfolding octet3_def 1 by (simp only: byte_of_unat)
qed

lemma sextets:
  fixes a b c :: "8 word"
  shows "unat a div 4 < 64" "unat a mod 4 * 16 < 64" "unat a mod 4 * 16 + unat b div 16 < 64"
    "unat b mod 16 * 4 < 64" "unat b mod 16 * 4 + unat c div 64 < 64" "unat c mod 64 < 64"
proof -
  have a: "unat a < 256" and b: "unat b < 256" and c: "unat c < 256"
    by (rule byte_bound)+
  show "unat a div 4 < 64" using a by simp
  have m: "unat a mod 4 \<le> 3" by simp
  then show "unat a mod 4 * 16 < 64" by simp
  have "unat b div 16 \<le> 15" using b by simp
  with m show "unat a mod 4 * 16 + unat b div 16 < 64" by linarith
  have n: "unat b mod 16 \<le> 15" by simp
  then show "unat b mod 16 * 4 < 64" by simp
  have "unat c div 64 \<le> 3" using c by simp
  with n show "unat b mod 16 * 4 + unat c div 64 < 64" by linarith
  show "unat c mod 64 < 64" by simp
qed

lemma base64_roundtrip: "base64_decode (arrayBufferToBase64 bytes) = bytes"
proof (induction bytes rule: arrayBufferToBase64.induct)
  case 1
  show ?case by simp
next
  case (2 a)
  show ?case
    using sextets(1,2) [of a]
    by (simp add: base64_index_digit octet1_sextets_last)
next
  case (3 a b)
  show ?case
    using sextets(1) [of a] sextets(3) [of a b] sextets(4) [of b]
    by (simp add: base64_index_digit octet1_sextets octet2_sextets_last)
next
  case (4 a b c rest)
  show ?case
    using sextets(1) [of a] sextets(3) [of a b] sextets(5) [of b c] sextets(6) [of c] 4
    by (simp add: base64_index_digit octet1_sextets octet2_sextets octet3_sextets)
qed

text \<open>
  Claim C3: when a signature is given and decoding it or embedding it as a PNG fails, and
  the rest of the document can be drawn (synthesis without a signature succeeds, and the
  font encodes the marker and the label), synthesis succeeds: the page is the one without
  signature followed by the marker text at (50, 100), the label and the signer name, and
  the result is the data URL of that page's serialization: the media-type prefix followed
  by a base64 text that reads back as exactly the bytes \<^verbatim>\<open>save\<close> gives for that page.
\<close>

theorem signature_failure_draws_marker:
  assumes "signatureDataUrl \<noteq> []"
      and "decodeSignature lib signatureDataUrl = None"
      and "renderContract lib template signer [] = Inr page"
      and "list_all (canEncode lib) (js ''(Signature Image Failed to Load)'')"
      and "list_all (canEncode lib) (js ''Signed By:'')"
  shows "renderContract lib template signer signatureDataUrl
           = Inr (page @
               [DrawText (js ''(Signature Image Failed to Load)'') 50 100 10 Helvetica
                  (Some (1, 0, 0)) None None,
                DrawText (js ''Signed By:'') 50 200 10 HelveticaBold None None None,
                DrawText (sanitizeForPdf (s_name signer) (js ''Member'')) 110 200 10 Helvetica
                  None None None])
       \<and> generateContractPDF lib template signer signatureDataUrl
           = Inr (js ''data:application/pdf;base64,'' @ arrayBufferToBase64 (save lib (page @
               [DrawText (js ''(Signature Image Failed to Load)'') 50 100 10 Helvetica
                  (Some (1, 0, 0)) None None,
                DrawText (js ''Signed By:'') 50 200 10 HelveticaBold None None None,
                DrawText (sanitizeForPdf (s_name signer) (js ''Member'')) 110 200 10 Helvetica
                  None None None])))
       \<and> (\<exists>payload. generateContractPDF lib template signer signatureDataUrl
                        = Inr (js ''data:application/pdf;base64,'' @ payload)
                    \<and> base64_decode payload = save lib (page @
               [DrawText (js ''(Signature Image Failed to Load)'') 50 100 10 Helvetica
                  (Some (1, 0, 0)) None None,
                DrawText (js ''Signed By:'') 50 200 10 HelveticaBold None None None,
                DrawText (sanitizeForPdf (s_name signer) (js ''Member'')) 110 200 10 Helvetica
                  None None None]))"
proof -
  from renderContract_no_signature [OF assms(3), of signatureDataUrl] assms(1)
  have n: "list_all (canEncode lib) (sanitizeForPdf (s_name signer) (js ''Member''))"
    and r: "renderContract lib template signer signatureDataUrl
         = drawSignature lib page (sanitizeForPdf (s_name signer) (js ''Member'')) signatureDataUrl"
    by simp_all
  have "drawSignature lib page (sanitizeForPdf (s_name signer) (js ''Member'')) signatureDataUrl
          = Inr (page @
               [DrawText (js ''(Signature Image Failed to Load)'') 50 100 10 Helvetica
                  (Some (1, 0, 0)) None None,
                DrawText (js ''Signed By:'') 50 200 10 HelveticaBold None None None,
                DrawText (sanitizeForPdf (s_name signer) (js ''Member'')) 110 200 10 Helvetica
                  None None None])"
    using assms(2,4,5) n by (simp add: drawSignature_def drawText_def)
  with r show ?thesis
    by (simp add: generateContractPDF_def base64_roundtrip)
qed

lemma strict_title: "list_all (canEncode strict_pdflib) (toUpperCase (js ''Electronic Contract Agreement''))"
  by (simp add: strict_pdflib_def toUpperCase_def ascii_upper_def js_def)

lemma strict_date: "list_all (canEncode strict_pdflib) (js ''Date: '' @ toLocaleDateString strict_pdflib)"
  by (simp add: strict_pdflib_def js_def)

lemma strict_body: "list_all (canEncode strict_pdflib) (bodyText (js ''Hong Gildong'') sample_signer (js ''Seoul''))"
  by (simp add: strict_pdflib_def bodyText_def sample_signer_def js_def)

lemma sample_render:
  "\<exists>page. renderContract strict_pdflib korean_template sample_signer [] = Inr page
           \<and> length page = 3"
  using strict_title strict_date strict_body
  by (simp add: renderContract_def drawText_def Let_def sanitizeForPdf_def korean_template_def
        sample_signer_def js_def)

theorem signature_failure_draws_marker_witness:
  "(\<exists>page. renderContract strict_pdflib korean_template sample_signer (js ''data:image/png;base64,AAAA'')
     = Inr (page @
               [DrawText (js ''(Signature Image Failed to Load)'') 50 100 10 Helvetica
                  (Some (1, 0, 0)) None None,
                DrawText (js ''Signed By:'') 50 200 10 HelveticaBold None None None,
                DrawText (js ''Hong Gildong'') 110 200 10 Helvetica None None None]))
   \<and> generateContractPDF strict_pdflib korean_template sample_signer (js ''data:image/png;base64,AAAA'')
     = Inr (js ''data:application/pdf;base64,JVBERgY='')
   \<and> base64_decode (js ''JVBERgY='') = [0x25, 0x50, 0x44, 0x46, 6]"
proof -
  obtain page where p: "renderContract strict_pdflib korean_template sample_signer [] = Inr page"
    and l: "length page = 3"
    using sample_render by blast
  have 1: "js ''data:image/png;base64,AAAA'' \<noteq> []" by (simp add: js_def)
  have 2: "decodeSignature strict_pdflib (js ''data:image/png;base64,AAAA'') = None"
    by (simp add: decodeSignature_def strict_pdflib_def Let_def)
  have 4: "list_all (canEncode strict_pdflib) (js ''(Signature Image Failed to Load)'')"
    by (simp add: strict_pdflib_def js_def)
  have 5: "list_all (canEncode strict_pdflib) (js ''Signed By:'')"
    by (simp add: strict_pdflib_def js_def)
  have n: "sanitizeForPdf (s_name sample_signer) (js ''Member'') = js ''Hong Gildong''"
    by (simp add: sanitizeForPdf_def sample_signer_def js_def)
  have b: "arrayBufferToBase64 [0x25, 0x50, 0x44, 0x46, 6] = js ''JVBERgY=''"
    by (simp add: base64_digit_def js_def)
  have s: "save strict_pdflib (page @ [x, y, z]) = [0x25, 0x50, 0x44, 0x46, 6]" for x y z
    using l by (simp add: strict_pdflib_def)
  have d: "base64_decode (js ''JVBERgY='') = [0x25, 0x50, 0x44, 0x46, 6]"
    using base64_roundtrip [of "[0x25, 0x50, 0x44, 0x46, 6]"] unfolding b .
  have u: "js ''data:application/pdf;base64,'' @ js ''JVBERgY=''
             = js ''data:application/pdf;base64,JVBERgY=''"
    by (simp add: js_def)
  from signature_failure_draws_marker [OF 1 2 p 4 5]
  have "renderContract strict_pdflib korean_template sample_signer (js ''data:image/png;base64,AAAA'')
     = Inr (page @
               [DrawText (js ''(Signature Image Failed to Load)'') 50 100 10 Helvetica
                  (Some (1, 0, 0)) None None,
                DrawText (js ''Signed By:'') 50 200 10 HelveticaBold None None None,
                DrawText (js ''Hong Gildong'') 110 200 10 Helvetica None None None])"
    and g: "generateContractPDF strict_pdflib korean_template sample_signer (js ''data:image/png;base64,AAAA'')
     = Inr (js ''data:application/pdf;base64,'' @ js ''JVBERgY='')"
    unfolding n s b by blast+
  then have "\<exists>page. renderContract strict_pdflib korean_template sample_signer (js ''data:image/png;base64,AAAA'')
     = Inr (page @
               [DrawText (js ''(Signature Image Failed to Load)'') 50 100 10 Helvetica
                  (Some (1, 0, 0)) None None,
                DrawText (js ''Signed By:'') 50 200 10 HelveticaBold None None None,
                DrawText (js ''Hong Gildong'') 110 200 10 Helvetica None None None])"
    by blast
  with g d show ?thesis
    unfolding u by blast
qed

subsection \<open>Grouping by month (claim C8)\<close>

lemma group_push_keys:
  "map fst (group_push k c gs) = (if k \<in> set (map fst gs) then map fst gs else map fst gs @ [k])"
  by (induction gs) (force+)

lemma group_push_map_of:
  "map_of (group_push k c gs) =
     (map_of gs)(k \<mapsto> (case map_of gs k of None \<Rightarrow> [c] | Some cs \<Rightarrow> cs @ [c]))"
  by (induction gs) (auto simp add: fun_eq_iff)

lemma foldl_group_keys:
  "distinct (map fst gs) \<Longrightarrow>
   distinct (map fst (foldl (\<lambda>groups contract. group_push (f contract) contract groups) gs cs))
   \<and> set (map fst (foldl (\<lambda>groups contract. group_push (f contract) contract groups) gs cs))
       = set (map fst gs) \<union> f ` set cs"
proof (induction cs arbitrary: gs)
  case Nil
  then show ?case by simp
next
  case (Cons c cs)
  have d: "distinct (map fst (group_push (f c) c gs))"
    using Cons.prems by (simp add: group_push_keys)
  have s: "set (map fst (group_push (f c) c gs)) = insert (f c) (set (map fst gs))"
    by (auto simp add: group_push_keys)
  from Cons.IH [OF d] s show ?case by auto
qed

lemma foldl_group_map_of:
  "map_of (foldl (\<lambda>groups contract. group_push (f contract) contract groups) gs cs) k =
     (case map_of gs k of
        None \<Rightarrow> (if filter (\<lambda>c. f c = k) cs = [] then None else Some (filter (\<lambda>c. f c = k) cs))
      | Some g \<Rightarrow> Some (g @ filter (\<lambda>c. f c = k) cs))"
proof (induction cs arbitrary: gs)
  case Nil
  then show ?case by (simp split: option.splits)
next
  case (Cons c cs)
  show ?case
    by (simp add: Cons.IH group_push_map_of split: option.splits)
qed

lemma groupedContracts_partition:
  "distinct (map fst (groupedContracts dt cs))
   \<and> set (map fst (groupedContracts dt cs)) = (\<lambda>c. getGroupKey dt (signedAt c)) ` set cs
   \<and> map_of (groupedContracts dt cs) k =
       (if filter (\<lambda>c. getGroupKey dt (signedAt c) = k) cs = [] then None
        else Some (filter (\<lambda>c. getGroupKey dt (signedAt c) = k) cs))"
  unfolding groupedContracts_def
  using foldl_group_keys [of "[]" "\<lambda>c. getGroupKey dt (signedAt c)" cs]
        foldl_group_map_of [of "\<lambda>c. getGroupKey dt (signedAt c)" "[]" cs k]
  by simp

lemma foldl_digits_shift:
  "foldl (\<lambda>a c. 10 * a + (unat c - 48)) a xs
     = a * 10 ^ length xs + foldl (\<lambda>a c. 10 * a + (unat c - 48)) 0 xs"
proof (induction xs rule: rev_induct)
  case Nil
  then show ?case by simp
next
  case (snoc y ys)
  have "foldl (\<lambda>a c. 10 * a + (unat c - 48)) a (ys @ [y])
          = 10 * foldl (\<lambda>a c. 10 * a + (unat c - 48)) a ys + (unat y - 48)"
    by simp
  also have "\<dots> = 10 * (a * 10 ^ length ys + foldl (\<lambda>a c. 10 * a + (unat c - 48)) 0 ys)
                    + (unat y - 48)"
    by (simp only: snoc)
  also have "\<dots> = a * 10 ^ length (ys @ [y])
                    + (10 * foldl (\<lambda>a c. 10 * a + (unat c - 48)) 0 ys + (unat y - 48))"
    by (simp add: algebra_simps)
  also have "10 * foldl (\<lambda>a c. 10 * a + (unat c - 48)) 0 ys + (unat y - 48)
               = foldl (\<lambda>a c. 10 * a + (unat c - 48)) 0 (ys @ [y])"
    by simp
  finally show ?case .
qed

lemma digit_value_Cons:
  "digit_value (x # xs) = (unat x - 48) * 10 ^ length xs + digit_value xs"
  using foldl_digits_shift [of "unat x - 48" xs]
  by (simp add: digit_value_def)

lemma digit_value_bound: "is_digits s \<Longrightarrow> digit_value s < 10 ^ length s"
proof (induction s)
  case Nil
  then show ?case by (simp add: digit_value_def)
next
  case (Cons x xs)
  then have "unat x - 48 \<le> 9" and "digit_value xs < 10 ^ length xs"
    by (auto simp add: is_digits_def)
  then have "(unat x - 48) * 10 ^ length xs + digit_value xs < 9 * 10 ^ length xs + 10 ^ length xs"
    by (meson add_le_less_mono mult_le_mono1)
  then show ?case by (simp add: digit_value_Cons)
qed

lemma digits_less:
  "length xs = length ys \<Longrightarrow> is_digits xs \<Longrightarrow> is_digits ys \<Longrightarrow>
   digit_value xs < digit_value ys \<Longrightarrow> xs < ys"
proof (induction xs ys rule: list_induct2)
  case Nil
  then show ?case by (simp add: digit_value_def)
next
  case (Cons x xs y ys)
  let ?P = "(10::nat) ^ length xs"
  have dx: "48 \<le> unat x" "unat x \<le> 57" and dy: "48 \<le> unat y" "unat y \<le> 57"
    and ix: "is_digits xs" and iy: "is_digits ys"
    using Cons.prems by (simp_all add: is_digits_def)
  have bx: "digit_value xs < ?P" using digit_value_bound [OF ix] .
  have by': "digit_value ys < ?P" using digit_value_bound [OF iy] Cons.hyps by simp
  have lt: "(unat x - 48) * ?P + digit_value xs < (unat y - 48) * ?P + digit_value ys"
    using Cons.prems(3) Cons.hyps by (simp add: digit_value_Cons)
  have le: "unat x \<le> unat y"
  proof (rule ccontr)
    assume "\<not> unat x \<le> unat y"
    then have "unat y - 48 + 1 \<le> unat x - 48" using dy by simp
    then have "(unat y - 48 + 1) * ?P \<le> (unat x - 48) * ?P" by (rule mult_le_mono1)
    then have "(unat y - 48) * ?P + ?P \<le> (unat x - 48) * ?P" by (simp add: algebra_simps)
    with lt by' show False by simp
  qed
  show ?case
  proof (cases "unat x = unat y")
    case True
    then have "x = y" by (simp add: word_unat_eq_iff)
    moreover have "digit_value xs < digit_value ys" using lt True by simp
    ultimately show ?thesis using Cons.IH [OF ix iy] by simp
  next
    case False
    with le have "x < y" by (simp add: word_less_nat_alt)
    then show ?thesis by simp
  qed
qed

lemma is_digits_decimal: "is_digits (decimal n)"
  using decimal_digits [of _ n] by (auto simp add: is_digits_def list_all_iff)

lemma decimal_four:
  assumes "1000 \<le> n" and "n \<le> 9999"
  shows "length (decimal n) = 4"
proof -
  have "decimal n = decimal (n div 10) @ [digit_char (n mod 10)]"
    using assms by (subst decimal.simps) simp
  moreover have "decimal (n div 10) = decimal (n div 10 div 10) @ [digit_char (n div 10 mod 10)]"
    using assms by (subst decimal.simps) simp
  moreover have "decimal (n div 10 div 10) = decimal (n div 10 div 10 div 10) @ [digit_char (n div 10 div 10 mod 10)]"
    using assms by (subst decimal.simps) simp
  moreover have "decimal (n div 10 div 10 div 10) = [digit_char (n div 10 div 10 div 10)]"
    using assms by (subst decimal.simps) simp
  ultimately show ?thesis by simp
qed

lemma less_append_same_length:
  fixes xs ys :: jsstring
  shows "xs < ys \<Longrightarrow> length xs = length ys \<Longrightarrow> xs @ u < ys @ v"
  by (simp add: list_less_def lexord_sufI)

lemma less_append_same_prefix:
  fixes u v :: jsstring
  shows "u < v \<Longrightarrow> xs @ u < xs @ v"
  by (simp add: list_less_def lexord_append_leftI)

lemma month_string: "number_toString (int m + 1) = decimal (Suc m)"
proof -
  have "nat (int m + 1) = Suc m" by simp
  then show ?thesis by (simp add: number_toString_def del: of_nat_Suc)
qed

lemma month_digits:
  assumes "m < 12"
  shows "length (padStart 2 0x30 (number_toString (int m + 1))) = 2
       \<and> is_digits (padStart 2 0x30 (number_toString (int m + 1)))
       \<and> digit_value (padStart 2 0x30 (number_toString (int m + 1))) = Suc m"
proof (cases "Suc m < 10")
  case True
  then have d: "decimal (Suc m) = [digit_char (Suc m)]"
    by (subst decimal.simps) simp
  have p: "padStart 2 0x30 (decimal (Suc m)) = [0x30, digit_char (Suc m)]"
    unfolding d by (simp add: padStart_def)
  have u: "unat (digit_char (Suc m)) = 48 + Suc m"
    using True by (rule unat_digit_char)
  show ?thesis
    unfolding month_string p
    using True by (simp add: is_digits_def digit_value_def u)
next
  case False
  then have d: "decimal (Suc m) = [digit_char (Suc m div 10), digit_char (Suc m mod 10)]"
    using assms by (subst decimal.simps, subst decimal.simps) simp
  have p: "padStart 2 0x30 (decimal (Suc m)) = decimal (Suc m)"
    unfolding d by (simp add: padStart_def)
  have l: "length (decimal (Suc m)) = 2"
    unfolding d by simp
  show ?thesis
    unfolding month_string p
    using l digit_value_decimal [of "Suc m"] is_digits_decimal [of "Suc m"]
    by simp
qed

lemma period_key_mono:
  assumes "1000 \<le> y1" "y1 \<le> 9999" "m1 < 12" "1000 \<le> y2" "y2 \<le> 9999" "m2 < 12"
      and "(y1, m1) < (y2, m2)"
  shows "period_key (y1, m1) < period_key (y2, m2)"
proof -
  let ?M1 = "padStart 2 0x30 (number_toString (int m1 + 1))"
  let ?M2 = "padStart 2 0x30 (number_toString (int m2 + 1))"
  have k1: "period_key (y1, m1) = decimal (nat y1) @ (js ''-'' @ ?M1)"
    using assms(1) by (simp add: period_key_def number_toString_def)
  have k2: "period_key (y2, m2) = decimal (nat y2) @ (js ''-'' @ ?M2)"
    using assms(4) by (simp add: period_key_def number_toString_def)
  have l1: "length (decimal (nat y1)) = 4" using assms(1,2) by (intro decimal_four) simp_all
  have l2: "length (decimal (nat y2)) = 4" using assms(4,5) by (intro decimal_four) simp_all
  from assms(7) consider "y1 < y2" | "y1 = y2" "m1 < m2"
    by (cases "y1 < y2") (auto simp add: less_prod_def)
  then show ?thesis
  proof cases
    case 1
    then have "digit_value (decimal (nat y1)) < digit_value (decimal (nat y2))"
      using assms(1) by (simp add: digit_value_decimal)
    then have "decimal (nat y1) < decimal (nat y2)"
      using l1 l2 is_digits_decimal by (intro digits_less) simp_all
    then show ?thesis
      unfolding k1 k2 using l1 l2 by (intro less_append_same_length) simp_all
  next
    case 2
    have "?M1 < ?M2"
      using month_digits [OF assms(3)] month_digits [OF assms(6)] 2(2)
      by (intro digits_less) simp_all
    then have "js ''-'' @ ?M1 < js ''-'' @ ?M2"
      by (rule less_append_same_prefix)
    then have "decimal (nat y2) @ (js ''-'' @ ?M1) < decimal (nat y2) @ (js ''-'' @ ?M2)"
      by (rule less_append_same_prefix)
    then show ?thesis
      using k1 k2 2(1) by simp
  qed
qed

lemma getGroupKey_period:
  "four_digit_period dt c \<Longrightarrow> getGroupKey dt (signedAt c) = period_key (period_of dt c)"
  by (auto simp add: four_digit_period_def getGroupKey_def period_key_def period_of_def
        split: option.splits)

lemma sort_keys_of_periods:
  assumes "\<forall>p \<in> set ps. case p of (y, m) \<Rightarrow> 1000 \<le> y \<and> y \<le> 9999 \<and> m < 12"
      and "distinct ks" and "set ks = period_key ` set ps"
  shows "sort ks = map period_key (sort (remdups ps))"
proof (rule sorted_distinct_set_unique)
  show "sorted (sort ks)" by simp
  show "distinct (sort ks)" using assms(2) by simp
  have strict: "sorted_wrt (<) (sort (remdups ps))"
    by (simp add: strict_sorted_iff)
  have "sorted_wrt (\<lambda>p q. period_key p < period_key q) (sort (remdups ps))"
  proof (rule sorted_wrt_mono_rel [OF _ strict])
    fix p q
    assume P: "p \<in> set (sort (remdups ps))" and Q: "q \<in> set (sort (remdups ps))"
      and lt: "p < q"
    obtain y1 m1 where p: "p = (y1, m1)" by (cases p)
    obtain y2 m2 where q: "q = (y2, m2)" by (cases q)
    have "(y1, m1) \<in> set ps" "(y2, m2) \<in> set ps"
      using P Q p q by simp_all
    with assms(1) have "1000 \<le> y1" "y1 \<le> 9999" "m1 < 12" "1000 \<le> y2" "y2 \<le> 9999" "m2 < 12"
      by auto
    then show "period_key p < period_key q"
      unfolding p q using lt p q by (intro period_key_mono) simp_all
  qed
  then have "sorted_wrt (<) (map period_key (sort (remdups ps)))"
    by (simp add: sorted_wrt_map)
  then show "sorted (map period_key (sort (remdups ps)))"
    and "distinct (map period_key (sort (remdups ps)))"
    by (simp_all add: strict_sorted_iff)
  show "set (sort ks) = set (map period_key (sort (remdups ps)))"
    using assms(3) by simp
qed

lemma sorted_keys_of_four_digit_periods:
  assumes "\<forall>c \<in> set contracts. four_digit_period dt c"
  shows "sortedGroupKeys dt contracts
           = map period_key (rev (sort (remdups (map (period_of dt) contracts))))
       \<and> (\<forall>c \<in> set contracts. getGroupKey dt (signedAt c) = period_key (period_of dt c))
       \<and> distinct (map fst (groupedContracts dt contracts))
       \<and> (\<forall>k. map_of (groupedContracts dt contracts) k =
             (if filter (\<lambda>c. getGroupKey dt (signedAt c) = k) contracts = [] then None
              else Some (filter (\<lambda>c. getGroupKey dt (signedAt c) = k) contracts)))"
proof -
  have keys: "\<forall>c \<in> set contracts. getGroupKey dt (signedAt c) = period_key (period_of dt c)"
    using assms getGroupKey_period by blast
  have valid: "\<forall>p \<in> set (map (period_of dt) contracts).
                 case p of (y, m) \<Rightarrow> 1000 \<le> y \<and> y \<le> 9999 \<and> m < 12"
    using assms
    by (auto simp add: four_digit_period_def period_of_def split: option.splits)
  have d: "distinct (map fst (groupedContracts dt contracts))"
    using groupedContracts_partition [of dt contracts] by simp
  have "set (map fst (groupedContracts dt contracts))
          = (\<lambda>c. getGroupKey dt (signedAt c)) ` set contracts"
    using groupedContracts_partition [of dt contracts] by simp
  also have "\<dots> = period_key ` set (map (period_of dt) contracts)"
    using keys by (auto simp add: image_iff)
  finally have s: "set (map fst (groupedContracts dt contracts))
          = period_key ` set (map (period_of dt) contracts)" .
  have "sortedGroupKeys dt contracts
           = map period_key (rev (sort (remdups (map (period_of dt) contracts))))"
    unfolding sortedGroupKeys_def sort_keys_of_periods [OF valid d s]
    by (simp add: rev_map)
  moreover have "\<forall>k. map_of (groupedContracts dt contracts) k =
             (if filter (\<lambda>c. getGroupKey dt (signedAt c) = k) contracts = [] then None
              else Some (filter (\<lambda>c. getGroupKey dt (signedAt c) = k) contracts))"
    using groupedContracts_partition [of dt contracts] by simp
  ultimately show ?thesis using keys d by simp
qed

lemma sample_keys:
  "getGroupKey sample_dates (js ''2024-05-03T09:00:00.000Z'') = js ''2024-05''"
  "getGroupKey sample_dates (js ''2024-05-20T18:30:00.000Z'') = js ''2024-05''"
  "getGroupKey sample_dates (js ''2024-06-01T08:00:00.000Z'') = js ''2024-06''"
  by (simp_all add: getGroupKey_def sample_dates_def js_def number_toString_def decimal.simps
        digit_char_def padStart_def)

text \<open>
  Claim C8: the contracts are partitioned by the key of their signing month (keys are
  pairwise different, and the group of a key holds exactly the contracts with that key, in
  their order); and for signing timestamps as the application writes them (valid dates
  whose local year has four digits, 1000 to 9999), the key of a contract is the year, a
  hyphen and the two-digit month of its local date, and the keys are presented as the
  different periods sorted newest first.
\<close>

theorem groups_by_month_newest_first:
  "distinct (map fst (groupedContracts dt contracts))
   \<and> (\<forall>k. map_of (groupedContracts dt contracts) k =
         (if filter (\<lambda>c. getGroupKey dt (signedAt c) = k) contracts = [] then None
          else Some (filter (\<lambda>c. getGroupKey dt (signedAt c) = k) contracts)))
   \<and> ((\<forall>c \<in> set contracts. four_digit_period dt c) \<longrightarrow>
        (\<forall>c \<in> set contracts. getGroupKey dt (signedAt c) = period_key (period_of dt c))
        \<and> sortedGroupKeys dt contracts
            = map period_key (rev (sort (remdups (map (period_of dt) contracts)))))"
proof -
  have "distinct (map fst (groupedContracts dt contracts))"
    using groupedContracts_partition [of dt contracts] by simp
  moreover have "\<forall>k. map_of (groupedContracts dt contracts) k =
         (if filter (\<lambda>c. getGroupKey dt (signedAt c) = k) contracts = [] then None
          else Some (filter (\<lambda>c. getGroupKey dt (signedAt c) = k) contracts))"
    using groupedContracts_partition [of dt contracts] by simp
  ultimately show ?thesis
    using sorted_keys_of_four_digit_periods [of contracts dt] by blast
qed

theorem groups_by_month_newest_first_witness:
  "sortedGroupKeys sample_dates
     [signed_on (js ''2024-05-03T09:00:00.000Z''), signed_on (js ''2024-06-01T08:00:00.000Z''),
      signed_on (js ''2024-05-20T18:30:00.000Z'')]
     = [js ''2024-06'', js ''2024-05'']
   \<and> map_of (groupedContracts sample_dates
     [signed_on (js ''2024-05-03T09:00:00.000Z''), signed_on (js ''2024-06-01T08:00:00.000Z''),
      signed_on (js ''2024-05-20T18:30:00.000Z'')]) (js ''2024-05'')
     = Some [signed_on (js ''2024-05-03T09:00:00.000Z''), signed_on (js ''2024-05-20T18:30:00.000Z'')]
   \<and> map_of (groupedContracts sample_dates
     [signed_on (js ''2024-05-03T09:00:00.000Z''), signed_on (js ''2024-06-01T08:00:00.000Z''),
      signed_on (js ''2024-05-20T18:30:00.000Z'')]) (js ''2024-06'')
     = Some [signed_on (js ''2024-06-01T08:00:00.000Z'')]"
proof -
  let ?cs = "[signed_on (js ''2024-05-03T09:00:00.000Z''), signed_on (js ''2024-06-01T08:00:00.000Z''),
      signed_on (js ''2024-05-20T18:30:00.000Z'')]"
  have v: "\<forall>c \<in> set ?cs. four_digit_period sample_dates c"
    by (simp add: four_digit_period_def signed_on_def sample_dates_def js_def)
  have p: "map (period_of sample_dates) ?cs = [(2024, 4), (2024, 5), (2024, 4)]"
    by (simp add: period_of_def signed_on_def sample_dates_def js_def)
  have k: "period_key (2024, 4) = js ''2024-05''" "period_key (2024, 5) = js ''2024-06''"
    by (simp_all add: period_key_def js_def number_toString_def decimal.simps
        digit_char_def padStart_def)
  have g: "signedAt (signed_on d) = d" for d
    by (simp add: signed_on_def)
  have ne: "js ''2024-05'' \<noteq> js ''2024-06''"
    by (simp add: js_def)
  from groups_by_month_newest_first [of sample_dates ?cs] v
  have "sortedGroupKeys sample_dates ?cs
          = map period_key (rev (sort (remdups (map (period_of sample_dates) ?cs))))"
    and "\<forall>k. map_of (groupedContracts sample_dates ?cs) k =
         (if filter (\<lambda>c. getGroupKey sample_dates (signedAt c) = k) ?cs = [] then None
          else Some (filter (\<lambda>c. getGroupKey sample_dates (signedAt c) = k) ?cs))"
    by blast+
  then show ?thesis
    unfolding p using k ne
    by (simp add: g sample_keys less_eq_prod_def)
qed

end
